theory Spec2Isabelle
  imports Complex_Main "HOL-Library.Sublist"
begin

section \<open>Vectors and the calls into the vector library\<close>

text \<open>
  The service in \<^verbatim>\<open>backend/services/faiss_service.py\<close> keeps a flat inner-product index
  of the vector library and a dictionary of metadata.  Embeddings are float arrays; for the
  index the model reads a float as a real number.  An embedding is one row: \<^verbatim>\<open>add_vector\<close>
  reshapes a one-dimensional array to \<^verbatim>\<open>(1, n)\<close>, and the model
  takes that row.
\<close>

type_synonym vector = "real list"

definition inner :: "vector \<Rightarrow> vector \<Rightarrow> real" where
  "inner a b = sum_list (map (\<lambda>(x, y). x * y) (zip a b))"

definition l2_norm :: "vector \<Rightarrow> real" where
  "l2_norm v = sqrt (sum_list (map (\<lambda>x. x * x) v))"

text \<open>
  \<^verbatim>\<open>faiss.normalize_L2\<close> scales a row to unit length and leaves a row of norm zero as it is.
\<close>

definition normalize_L2 :: "vector \<Rightarrow> vector" where
  "normalize_L2 v = (if 0 < l2_norm v then map (\<lambda>x. x / l2_norm v) v else v)"

text \<open>
  \<^verbatim>\<open>faiss.IndexFlatIP(d)\<close>: the dimension and the stored rows; \<^verbatim>\<open>ntotal\<close> is their number.
\<close>

record faiss_index =
  d :: nat
  xb :: "vector list"

definition IndexFlatIP :: "nat \<Rightarrow> faiss_index" where
  "IndexFlatIP n = \<lparr>d = n, xb = []\<rparr>"

definition ntotal :: "faiss_index \<Rightarrow> nat" where
  "ntotal idx = length (xb idx)"

datatype lib_error = AssertionError | ValueError | KeyError

text \<open>
  \<^verbatim>\<open>index.add(x)\<close> asserts that the rows of \<^verbatim>\<open>x\<close> have the index's dimension before it
  stores any of them.
\<close>

definition index_add :: "faiss_index \<Rightarrow> vector list \<Rightarrow> lib_error + faiss_index" where
  "index_add idx rows =
     (if list_all (\<lambda>r. length r = d idx) rows
      then Inr (idx\<lparr>xb := xb idx @ rows\<rparr>)
      else Inl AssertionError)"

text \<open>
  \<^verbatim>\<open>np.vstack\<close> raises on an empty sequence and on rows of different lengths.
\<close>

definition vstack :: "vector list \<Rightarrow> lib_error + vector list" where
  "vstack rows =
     (case rows of
        [] \<Rightarrow> Inl ValueError
      | r # rs \<Rightarrow> if list_all (\<lambda>x. length x = length r) rs then Inr rows else Inl ValueError)"

section \<open>The service state\<close>

text \<open>
  The dictionary a caller passes as \<^verbatim>\<open>resume_data\<close>: every key is read with \<^verbatim>\<open>.get\<close>, so
  every key may be missing.
\<close>

record resume_data =
  rd_filename :: "string option"
  rd_skills :: "string list option"
  rd_experience_years :: "int option"
  rd_education :: "string list option"
  rd_sections :: "(string \<times> string) list option"
  rd_created_at :: "string option"

text \<open>The empty dictionary.\<close>

definition no_data :: resume_data where
  "no_data = \<lparr>rd_filename = None, rd_skills = None, rd_experience_years = None,
               rd_education = None, rd_sections = None, rd_created_at = None\<rparr>"

text \<open>The dictionary stored under a slot.\<close>

record meta_entry =
  resume_id :: string
  filename :: string
  skills :: "string list"
  experience_years :: "int option"
  education :: "string list"
  sections :: "(string \<times> string) list"
  added_at :: string

definition entry_of :: "string \<Rightarrow> resume_data \<Rightarrow> meta_entry" where
  "entry_of rid rd =
     \<lparr>resume_id = rid,
      filename = (case rd_filename rd of None \<Rightarrow> [] | Some f \<Rightarrow> f),
      skills = (case rd_skills rd of None \<Rightarrow> [] | Some x \<Rightarrow> x),
      experience_years = rd_experience_years rd,
      education = (case rd_education rd of None \<Rightarrow> [] | Some x \<Rightarrow> x),
      sections = (case rd_sections rd of None \<Rightarrow> [] | Some x \<Rightarrow> x),
      added_at = (case rd_created_at rd of None \<Rightarrow> [] | Some x \<Rightarrow> x)\<rparr>"

text \<open>
  A persisted artifact is missing, unreadable, or holds a value.
\<close>

datatype 'a artifact = Absent | Garbled | Stored 'a

fun exists_file :: "'a artifact \<Rightarrow> bool" where
  "exists_file Absent = False"
| "exists_file _ = True"

text \<open>
  The metadata dictionary is keyed by \<^verbatim>\<open>str(vector_id)\<close>; \<^verbatim>\<open>str\<close> is injective on
  integers, so the model keys it by the integer.  The state holds the object's fields and
  the two files at \<^verbatim>\<open>FAISS_INDEX_PATH\<close> and \<^verbatim>\<open>FAISS_METADATA_PATH\<close>; \<open>index_writable\<close>
  and \<open>metadata_writable\<close> say whether a write to the one and to the other succeeds.
\<close>

type_synonym metadata_map = "int \<rightharpoonup> meta_entry"

record state =
  index :: faiss_index
  metadata :: metadata_map
  dimension :: nat
  index_file :: "faiss_index artifact"
  metadata_file :: "metadata_map artifact"
  index_writable :: bool
  metadata_writable :: bool

datatype error = RuntimeError string

section \<open>Persistence and initialisation\<close>

text \<open>
  \<^verbatim>\<open>_save_index\<close> writes the index file first and the metadata file second.  Where the
  second write fails, the new index file stands beside the old metadata file.
\<close>

definition save_index :: "state \<Rightarrow> error option \<times> state" where
  "save_index s =
     (if \<not> index_writable s then (Some (RuntimeError ''Could not save FAISS index''), s)
      else
        (let s1 = s\<lparr>index_file := Stored (index s)\<rparr>
         in if \<not> metadata_writable s
            then (Some (RuntimeError ''Could not save FAISS index''), s1)
            else (None, s1\<lparr>metadata_file := Stored (metadata s)\<rparr>)))"

definition create_new_index :: "state \<Rightarrow> error option \<times> state" where
  "create_new_index s =
     (let s1 = s\<lparr>index := IndexFlatIP (dimension s), metadata := Map.empty\<rparr>
      in case save_index s1 of
           (None, s2) \<Rightarrow> (None, s2)
         | (Some e, s2) \<Rightarrow> (Some (RuntimeError ''Could not create FAISS index''), s2))"

text \<open>
  \<^verbatim>\<open>_load_index\<close> assigns the index first and the metadata second, so a failure of the
  second read leaves the index assigned.
\<close>

definition load_index :: "state \<Rightarrow> error option \<times> state" where
  "load_index s =
     (case index_file s of
        Stored idx \<Rightarrow>
          (case metadata_file s of
             Stored m \<Rightarrow> (None, s\<lparr>index := idx, metadata := m\<rparr>)
           | _ \<Rightarrow> (Some (RuntimeError ''Could not load FAISS index''), s\<lparr>index := idx\<rparr>))
      | _ \<Rightarrow> (Some (RuntimeError ''Could not load FAISS index''), s))"

definition initialize_index :: "state \<Rightarrow> error option \<times> state" where
  "initialize_index s =
     (case (if exists_file (index_file s) \<and> exists_file (metadata_file s)
            then load_index s else create_new_index s) of
        (None, s1) \<Rightarrow> (None, s1)
      | (Some e, s1) \<Rightarrow> create_new_index s1)"

text \<open>
  The constructor.  \<^verbatim>\<open>self.index = None\<close> stands until \<^verbatim>\<open>_initialize_index\<close> has run; every
  path that returns has assigned the index, and a path that raises leaves no object.  The
  model starts from an empty index of the configured dimension in its place.
\<close>

definition blank ::
  "nat \<Rightarrow> faiss_index artifact \<Rightarrow> metadata_map artifact \<Rightarrow> bool \<Rightarrow> bool \<Rightarrow> state"
where
  "blank n ifile mfile wi wm =
     \<lparr>index = IndexFlatIP n, metadata = Map.empty, dimension = n,
      index_file = ifile, metadata_file = mfile,
      index_writable = wi, metadata_writable = wm\<rparr>"

definition FAISSService ::
  "nat \<Rightarrow> faiss_index artifact \<Rightarrow> metadata_map artifact \<Rightarrow> bool \<Rightarrow> bool \<Rightarrow> error + state"
where
  "FAISSService n ifile mfile wi wm =
     (case initialize_index (blank n ifile mfile wi wm) of
        (None, s) \<Rightarrow> Inr s
      | (Some e, s) \<Rightarrow> Inl e)"

section \<open>Appending\<close>

definition add_vector :: "string \<Rightarrow> vector \<Rightarrow> resume_data \<Rightarrow> state \<Rightarrow> error option \<times> state" where
  "add_vector rid embedding rd s =
     (case index_add (index s) [normalize_L2 embedding] of
        Inl e \<Rightarrow> (Some (RuntimeError ''Could not add vector to index''), s)
      | Inr idx' \<Rightarrow>
          (let vector_id = int (ntotal idx') - 1;
               s1 = s\<lparr>index := idx', metadata := (metadata s)(vector_id \<mapsto> entry_of rid rd)\<rparr>
           in case save_index s1 of
                (None, s2) \<Rightarrow> (None, s2)
              | (Some e, s2) \<Rightarrow> (Some (RuntimeError ''Could not add vector to index''), s2)))"

text \<open>
  An item of a batch: \<^verbatim>\<open>data['embedding']\<close> and \<^verbatim>\<open>data['resume_id']\<close> are read by
  subscript and raise when the key is missing; the other keys are read with \<^verbatim>\<open>.get\<close>.
\<close>

record batch_item =
  item_embedding :: "vector option"
  item_resume_id :: "string option"
  item_data :: resume_data

text \<open>
  The loop of \<^verbatim>\<open>add_vectors_batch\<close>, with its two accumulators.  It reads the index but
  does not change it.
\<close>

fun collect_batch ::
  "nat \<Rightarrow> batch_item list \<Rightarrow> vector list \<Rightarrow> metadata_map \<Rightarrow> lib_error + (vector list \<times> metadata_map)"
where
  "collect_batch n [] embeddings metadata_batch = Inr (embeddings, metadata_batch)"
| "collect_batch n (data # rest) embeddings metadata_batch =
     (case item_embedding data of
        None \<Rightarrow> Inl KeyError
      | Some embedding \<Rightarrow>
          (let embeddings' = embeddings @ [embedding];
               vector_id = int n + int (length embeddings') - 1
           in case item_resume_id data of
                None \<Rightarrow> Inl KeyError
              | Some rid \<Rightarrow>
                  collect_batch n rest embeddings'
                    (metadata_batch(vector_id \<mapsto> entry_of rid (item_data data)))))"

definition add_vectors_batch :: "batch_item list \<Rightarrow> state \<Rightarrow> error option \<times> state" where
  "add_vectors_batch resume_data_list s =
     (case collect_batch (ntotal (index s)) resume_data_list [] Map.empty of
        Inl e \<Rightarrow> (Some (RuntimeError ''Could not add vectors to index''), s)
      | Inr (embeddings, metadata_batch) \<Rightarrow>
          (case vstack embeddings of
             Inl e \<Rightarrow> (Some (RuntimeError ''Could not add vectors to index''), s)
           | Inr embeddings_array \<Rightarrow>
               (case index_add (index s) (map normalize_L2 embeddings_array) of
                  Inl e \<Rightarrow> (Some (RuntimeError ''Could not add vectors to index''), s)
                | Inr idx' \<Rightarrow>
                    (let s1 = s\<lparr>index := idx', metadata := metadata s ++ metadata_batch\<rparr>
                     in case save_index s1 of
                          (None, s2) \<Rightarrow> (None, s2)
                        | (Some e, s2) \<Rightarrow>
                            (Some (RuntimeError ''Could not add vectors to index''), s2)))))"

section \<open>Deleting and rebuilding\<close>

definition delete_vector :: "string \<Rightarrow> state \<Rightarrow> bool \<times> state" where
  "delete_vector rid s = (False, s)"

text \<open>
  The route \<^verbatim>\<open>DELETE /resumes/{resume_id}\<close> of \<^verbatim>\<open>backend/api/routes.py\<close>: the status code
  and the message of the response.
\<close>

definition delete_resume :: "string \<Rightarrow> state \<Rightarrow> (nat \<times> string) \<times> state" where
  "delete_resume rid s =
     (case delete_vector rid s of
        (success, s') \<Rightarrow>
          (if success
           then ((200, ''Resume '' @ rid @ '' deleted successfully''), s')
           else ((200, ''Resume '' @ rid @ '' not found or deletion not supported''), s')))"

definition rebuild_index :: "state \<Rightarrow> error option \<times> state" where
  "rebuild_index s =
     (case (if metadata s = Map.empty then create_new_index s else create_new_index s) of
        (None, s') \<Rightarrow> (None, s')
      | (Some e, s') \<Rightarrow> (Some (RuntimeError ''Could not rebuild index''), s'))"

section \<open>The slot invariant\<close>

text \<open>
  The keys of the metadata mapping are the slots \<open>0, \<dots>, ntotal - 1\<close>.
\<close>

definition slot_dense :: "state \<Rightarrow> bool" where
  "slot_dense s \<longleftrightarrow> dom (metadata s) = {0 ..< int (ntotal (index s))}"

section \<open>Cosine similarity of two embeddings\<close>

text \<open>
  \<^verbatim>\<open>EmbeddingService.compute_similarity\<close> of \<^verbatim>\<open>backend/services/embedding_service.py\<close>
  computes in floating point, and what it returns for a vector and itself turns on that.
  The model takes the four floating-point operations it uses as a parameter:
  \<^verbatim>\<open>np.linalg.norm\<close>, \<^verbatim>\<open>np.dot\<close> (which raises when the lengths differ), the product of
  the two norms and the quotient.  Infinities and NaN are outside the model.
\<close>

record float_ops =
  fl_norm :: "vector \<Rightarrow> real"
  fl_dot :: "vector \<Rightarrow> vector \<Rightarrow> lib_error + real"
  fl_mul :: "real \<Rightarrow> real \<Rightarrow> real"
  fl_div :: "real \<Rightarrow> real \<Rightarrow> real"

text \<open>Any exception inside is caught and answered with \<open>0\<close>.\<close>

definition compute_similarity :: "float_ops \<Rightarrow> vector \<Rightarrow> vector \<Rightarrow> real" where
  "compute_similarity ops embedding1 embedding2 =
     (let norm1 = fl_norm ops embedding1; norm2 = fl_norm ops embedding2
      in if norm1 = 0 \<or> norm2 = 0 then 0
         else case fl_dot ops embedding1 embedding2 of
                Inl e \<Rightarrow> 0
              | Inr dp \<Rightarrow> max 0 (min 1 (fl_div ops dp (fl_mul ops norm1 norm2))))"

text \<open>
  The operations are accurate at a vector, to the relative error \<open>eps\<close>: the computed norm
  is that close to the norm, and, for the similarity of the vector with itself, so are the
  dot product, the product of the norms and the quotient.  This is what floating point gives
  where nothing underflows or overflows.
\<close>

definition norm_accurate :: "float_ops \<Rightarrow> real \<Rightarrow> vector \<Rightarrow> bool" where
  "norm_accurate ops eps a \<longleftrightarrow> \<bar>fl_norm ops a - l2_norm a\<bar> \<le> eps * l2_norm a"

definition self_accurate :: "float_ops \<Rightarrow> real \<Rightarrow> vector \<Rightarrow> bool" where
  "self_accurate ops eps a \<longleftrightarrow>
     norm_accurate ops eps a \<and>
     (case fl_dot ops a a of
        Inl e \<Rightarrow> False
      | Inr dp \<Rightarrow>
          (let n = fl_norm ops a; p = fl_mul ops n n
           in \<bar>dp - inner a a\<bar> \<le> eps * inner a a \<and>
              \<bar>p - n * n\<bar> \<le> eps * (n * n) \<and>
              \<bar>fl_div ops dp p - dp / p\<bar> \<le> eps * \<bar>dp / p\<bar>))"

text \<open>
  An arithmetic that underflows and does nothing else: a result of magnitude at most \<open>u\<close>
  becomes \<open>0\<close>, and every other result is exact.  With \<open>u\<close> the reciprocal of \<open>2 ^ 1075\<close>,
  half the least positive double, this is what rounding to nearest does to a result that
  small.  The norm is the square root of the dot product of the vector with itself, as
  \<^verbatim>\<open>np.linalg.norm\<close> computes it.
\<close>

definition flush :: "real \<Rightarrow> real \<Rightarrow> real" where
  "flush u x = (if \<bar>x\<bar> \<le> u then 0 else x)"

definition flush_dot :: "real \<Rightarrow> vector \<Rightarrow> vector \<Rightarrow> real" where
  "flush_dot u a b = foldl (\<lambda>acc (x, y). flush u (acc + flush u (x * y))) 0 (zip a b)"

definition flushing :: "real \<Rightarrow> float_ops" where
  "flushing u =
     \<lparr>fl_norm = (\<lambda>v. flush u (sqrt (flush_dot u v v))),
      fl_dot = (\<lambda>a b. if length a = length b then Inr (flush_dot u a b) else Inl ValueError),
      fl_mul = (\<lambda>x y. flush u (x * y)),
      fl_div = (\<lambda>x y. flush u (x / y))\<rparr>"

section \<open>Searching\<close>

text \<open>
  One row of what \<^verbatim>\<open>index.search\<close> returns: a similarity and the position of a stored row.
\<close>

type_synonym hit = "real \<times> int"

text \<open>
  The library's search is a call out of the repository, so the model takes it as the
  parameter \<open>index_search\<close>: given the index, one query row and \<open>k\<close>, it raises or returns
  \<open>k\<close> hits.  \<open>flat_ip_answer\<close> is what the library documents of such an answer for a flat
  inner-product index: \<open>k\<close> is positive and the query has the index's dimension (both are
  asserted by the library), the hits are \<open>k\<close> different stored positions, each with its inner
  product with the query, in order of non-increasing inner product, and no position left
  out scores more than a position returned.  The order among equal scores is not part of
  it.
\<close>

definition flat_ip_answer :: "faiss_index \<Rightarrow> vector \<Rightarrow> int \<Rightarrow> hit list \<Rightarrow> bool" where
  "flat_ip_answer idx q k hits \<longleftrightarrow>
     0 < k \<and> length q = d idx \<and> int (length hits) = k \<and>
     distinct (map snd hits) \<and>
     (\<forall>h \<in> set hits. 0 \<le> snd h \<and> snd h < int (ntotal idx) \<and>
                     fst h = inner q (xb idx ! nat (snd h))) \<and>
     sorted_wrt (\<lambda>a b. fst b \<le> fst a) hits \<and>
     (\<forall>j \<in> set [0 ..< ntotal idx]. int j \<notin> set (map snd hits) \<longrightarrow>
        (\<forall>h \<in> set hits. inner q (xb idx ! j) \<le> fst h))"

text \<open>
  A result of \<^verbatim>\<open>search\<close>: the similarity, the position, and the stored dictionary spliced in.
\<close>

record result =
  similarity_score :: real
  result_index :: int
  entry :: meta_entry

text \<open>The loop over the hits, in their order.\<close>

fun process_results :: "metadata_map \<Rightarrow> real \<Rightarrow> hit list \<Rightarrow> result list" where
  "process_results m threshold [] = []"
| "process_results m threshold ((similarity, idx) # rest) =
     (case m idx of
        Some e \<Rightarrow>
          (if threshold \<le> similarity
           then \<lparr>similarity_score = similarity, result_index = idx, entry = e\<rparr>
                  # process_results m threshold rest
           else process_results m threshold rest)
      | None \<Rightarrow> process_results m threshold rest)"

definition search ::
  "(faiss_index \<Rightarrow> vector \<Rightarrow> int \<Rightarrow> lib_error + hit list) \<Rightarrow>
   state \<Rightarrow> vector \<Rightarrow> int \<Rightarrow> real \<Rightarrow> error + result list"
where
  "search index_search s query_embedding top_k threshold =
     (if ntotal (index s) = 0 then Inr []
      else case index_search (index s) (normalize_L2 query_embedding)
                  (min top_k (int (ntotal (index s)))) of
             Inl e \<Rightarrow> Inl (RuntimeError ''Could not perform search'')
           | Inr hits \<Rightarrow> Inr (process_results (metadata s) threshold hits))"

text \<open>
  The order the specification asks of a result list: by decreasing similarity, and by
  increasing position among equal similarities.
\<close>

definition by_similarity_then_slot :: "result list \<Rightarrow> bool" where
  "by_similarity_then_slot out \<longleftrightarrow>
     sorted_wrt (\<lambda>a b. similarity_score b < similarity_score a \<or>
                       (similarity_score a = similarity_score b \<and> result_index a < result_index b))
       out"

section \<open>Regular expressions as the parser uses them\<close>

text \<open>
  \<^verbatim>\<open>backend/services/resume_parser.py\<close> finds its fields with \<^verbatim>\<open>re.findall\<close>.  The model
  has the part of the pattern language that the phone pattern and the experience patterns
  are written in: character classes, greedy repetition of a class, sequence, the greedy
  option \<^verbatim>\<open>?\<close>, and one capturing group.  A character of the model is a code point below
  256.
\<close>

datatype cclass = Digit | Space | AnyOf string | Union cclass cclass

definition whitespace :: string where
  "whitespace = [CHR 0x09, CHR 0x0A, CHR 0x0B, CHR 0x0C, CHR 0x0D, CHR 0x1C, CHR 0x1D,
                 CHR 0x1E, CHR 0x1F, CHR 0x20, CHR 0x85, CHR 0xA0]"

fun in_class :: "cclass \<Rightarrow> char \<Rightarrow> bool" where
  "in_class Digit c = (c \<in> set ''0123456789'')"
| "in_class Space c = (c \<in> set whitespace)"
| "in_class (AnyOf cs) c = (c \<in> set cs)"
| "in_class (Union a b) c = (in_class a c \<or> in_class b c)"

datatype regex =
    Eps
  | Ch cclass
  | Rep cclass nat "nat option"
  | Cat regex regex
  | Opt regex
  | Group regex

text \<open>
  The matcher is the backtracking search of the library, written as the list of its
  successes in the order the search would reach them: a greedy repetition tries the longest
  run first, an option tries its body before it tries to skip it.  A success is the text
  left over and what the capturing group holds.  \<open>Rep c lo hi\<close> is \<^verbatim>\<open>c{lo,hi}\<close>, with no
  upper bound when \<open>hi\<close> is \<open>None\<close>.
\<close>

type_synonym mstate = "string \<times> string option"

fun rmatch :: "regex \<Rightarrow> mstate \<Rightarrow> mstate list" where
  "rmatch Eps st = [st]"
| "rmatch (Ch c) (s, g) =
     (case s of [] \<Rightarrow> [] | x # xs \<Rightarrow> if in_class c x then [(xs, g)] else [])"
| "rmatch (Rep c lo hi) (s, g) =
     (let n = length (takeWhile (in_class c) s);
          m = (case hi of None \<Rightarrow> n | Some h \<Rightarrow> min h n)
      in map (\<lambda>i. (drop i s, g)) (rev [lo ..< Suc m]))"
| "rmatch (Cat a b) st = concat (map (rmatch b) (rmatch a st))"
| "rmatch (Opt a) st = rmatch a st @ [st]"
| "rmatch (Group a) (s, g) =
     map (\<lambda>st'. (fst st', Some (take (length s - length (fst st')) s))) (rmatch a (s, g))"

text \<open>
  What \<^verbatim>\<open>findall\<close> reports for a match of a pattern with one group: the text of the group,
  and the empty string where the group took no part in the match.
\<close>

fun group_text :: "string option \<Rightarrow> string" where
  "group_text None = []"
| "group_text (Some c) = c"

text \<open>
  \<^verbatim>\<open>re.findall\<close>: scan from the left; at each position take the first success of the
  matcher, report its group, and go on behind the match; where nothing matches, move one
  character on.  (The patterns of this file match no empty string; for a match that consumes
  nothing the model moves one character on.)
\<close>

function findall :: "regex \<Rightarrow> string \<Rightarrow> string list" where
  "findall r s =
     (case rmatch r (s, None) of
        [] \<Rightarrow> (case s of [] \<Rightarrow> [] | x # xs \<Rightarrow> findall r xs)
      | st # _ \<Rightarrow>
          group_text (snd st) #
          (if length (fst st) < length s then findall r (fst st)
           else (case s of [] \<Rightarrow> [] | x # xs \<Rightarrow> findall r xs)))"
  by pat_completeness auto
termination
  by (relation "measure (\<lambda>(r, s). length s)") auto

text \<open>The text of the first match, as \<^verbatim>\<open>re.search(...).group()\<close> gives it.\<close>

fun first_match :: "regex \<Rightarrow> string \<Rightarrow> string option" where
  "first_match r [] =
     (case rmatch r ([], None) of [] \<Rightarrow> None | st # _ \<Rightarrow> Some [])"
| "first_match r (x # xs) =
     (case rmatch r (x # xs, None) of
        [] \<Rightarrow> first_match r xs
      | st # _ \<Rightarrow> Some (take (length (x # xs) - length (fst st)) (x # xs)))"

text \<open>Building patterns: a sequence, and a word under \<^verbatim>\<open>re.IGNORECASE\<close>.\<close>

definition seq :: "regex list \<Rightarrow> regex" where
  "seq rs = foldr Cat rs Eps"

definition to_upper :: "char \<Rightarrow> char" where
  "to_upper c =
     (case map_of (zip ''abcdefghijklmnopqrstuvwxyz'' ''ABCDEFGHIJKLMNOPQRSTUVWXYZ'') c of
        Some u \<Rightarrow> u
      | None \<Rightarrow> c)"

definition ci :: "string \<Rightarrow> regex" where
  "ci w = seq (map (\<lambda>c. Ch (AnyOf [c, to_upper c])) w)"

section \<open>Contact information: the phone\<close>

text \<open>
  \<^verbatim>\<open>(\+?\d{1,3}[-.\s]?)?\(?\d{3}\)?[-.\s]?\d{3}[-.\s]?\d{4}\<close>
\<close>

definition sep :: cclass where
  "sep = Union (AnyOf ''-.'') Space"

definition phone_pattern :: regex where
  "phone_pattern =
     seq [Opt (Group (seq [Opt (Ch (AnyOf ''+'')), Rep Digit 1 (Some 3), Opt (Ch sep)])),
          Opt (Ch (AnyOf ''('')), Rep Digit 3 (Some 3), Opt (Ch (AnyOf '')'')),
          Opt (Ch sep), Rep Digit 3 (Some 3), Opt (Ch sep), Rep Digit 4 (Some 4)]"

text \<open>
  The phone step of \<^verbatim>\<open>_extract_contact_info\<close>: what the dictionary it returns holds under
  \<^verbatim>\<open>'phone'\<close>.  The pattern has one group, so \<^verbatim>\<open>findall\<close> returns strings and
  \<^verbatim>\<open>phones[0]\<close> is stored as it is.  The steps for the e-mail address and the profile write
  other keys only.
\<close>

definition contact_phone :: "string \<Rightarrow> string option" where
  "contact_phone text =
     (case findall phone_pattern text of [] \<Rightarrow> None | p # _ \<Rightarrow> Some p)"

text \<open>
  The phone as the specification words it: the first match with every character that is
  not a digit stripped.
\<close>

definition phone_digits_of_first_match :: "string \<Rightarrow> string option" where
  "phone_digits_of_first_match text =
     map_option (filter (in_class Digit)) (first_match phone_pattern text)"

section \<open>Years of experience\<close>

definition experience_patterns :: "regex list" where
  "experience_patterns =
     [seq [Group (Rep Digit 1 None), Opt (Ch (AnyOf ''+'')), Rep Space 0 None, ci ''year'',
           Opt (ci ''s''), Rep Space 0 None, Opt (seq [ci ''of'', Rep Space 0 None]),
           ci ''experience''],
      seq [Group (Rep Digit 1 None), Opt (Ch (AnyOf ''+'')), Rep Space 0 None, ci ''year'',
           Opt (ci ''s''), Rep Space 0 None, ci ''in''],
      seq [ci ''over'', Rep Space 0 None, Group (Rep Digit 1 None), Rep Space 0 None,
           ci ''year'', Opt (ci ''s'')],
      seq [ci ''more'', Rep Space 0 None, ci ''than'', Rep Space 0 None,
           Group (Rep Digit 1 None), Rep Space 0 None, ci ''year'', Opt (ci ''s'')]]"

text \<open>
  \<^verbatim>\<open>int(match)\<close> on what \<^verbatim>\<open>findall\<close> can hand it here: a run of at most 4300 digits
  gives its decimal value; a longer run raises \<^verbatim>\<open>ValueError\<close> (the interpreter's limit on
  the conversion of digit strings), and so does the empty string.
\<close>

definition digit_value :: "char \<Rightarrow> int" where
  "digit_value c = int (of_char c) - 48"

definition parse_int :: "string \<Rightarrow> int option" where
  "parse_int s =
     (if s \<noteq> [] \<and> list_all (in_class Digit) s \<and> length s \<le> 4300
      then Some (foldl (\<lambda>acc c. 10 * acc + digit_value c) 0 s)
      else None)"

text \<open>The list comprehension: it raises at the first element that does.\<close>

fun ints_of :: "string list \<Rightarrow> int list option" where
  "ints_of [] = Some []"
| "ints_of (m # ms) =
     (case parse_int m of
        None \<Rightarrow> None
      | Some n \<Rightarrow> (case ints_of ms of None \<Rightarrow> None | Some ns \<Rightarrow> Some (n # ns)))"

text \<open>
  The loop of \<^verbatim>\<open>_extract_experience_years\<close>: the first pattern with a match returns the
  largest of its own captures; \<^verbatim>\<open>ValueError\<close> goes on to the next pattern.
\<close>

fun years_loop :: "regex list \<Rightarrow> string \<Rightarrow> int option" where
  "years_loop [] text = None"
| "years_loop (pattern # rest) text =
     (let matches = findall pattern text
      in if matches \<noteq> []
         then (case ints_of matches of
                 None \<Rightarrow> years_loop rest text
               | Some [] \<Rightarrow> years_loop rest text
               | Some (n # ns) \<Rightarrow> Some (fold max ns n))
         else years_loop rest text)"

definition extract_experience_years :: "string \<Rightarrow> int option" where
  "extract_experience_years text = years_loop experience_patterns text"

text \<open>
  The years as the specification words them: the largest capture over all patterns, and
  nothing when no pattern matches.
\<close>

definition max_over_all_patterns :: "string \<Rightarrow> int option" where
  "max_over_all_patterns text =
     (case ints_of (concat (map (\<lambda>p. findall p text) experience_patterns)) of
        Some (n # ns) \<Rightarrow> Some (fold max ns n)
      | _ \<Rightarrow> None)"

section \<open>Basic facts\<close>

lemma length_normalize_L2 [simp]: "length (normalize_L2 v) = length v"
  by (simp add: normalize_L2_def)

lemma collect_batch_embeddings:
  "collect_batch n items acc mb = Inr (embs, mb') \<Longrightarrow>
   map Some embs = map Some acc @ map item_embedding items"
proof (induction items arbitrary: acc mb)
  case Nil
  then show ?case by simp
next
  case (Cons it items)
  then show ?case
    by (auto split: option.splits simp: Let_def)
qed

lemma collect_batch_dom:
  "collect_batch n items acc mb = Inr (embs, mb') \<Longrightarrow>
   dom mb' = dom mb \<union> {int n + int (length acc) ..< int n + int (length acc) + int (length items)}
   \<and> length embs = length acc + length items"
proof (induction items arbitrary: acc mb)
  case Nil
  then show ?case by simp
next
  case (Cons it items)
  from Cons.prems obtain e rid where e: "item_embedding it = Some e"
    and rid: "item_resume_id it = Some rid"
    and rec: "collect_batch n items (acc @ [e])
                (mb(int n + int (length acc) \<mapsto> entry_of rid (item_data it)))
              = Inr (embs, mb')"
    by (auto split: option.splits simp: Let_def)
  note ih = Cons.IH [OF rec]
  from ih have len: "length embs = length acc + 1 + length items" by simp
  from ih have "dom mb' = dom (mb(int n + int (length acc) \<mapsto> entry_of rid (item_data it))) \<union>
          {int n + int (length (acc @ [e])) ..< int n + int (length (acc @ [e])) + int (length items)}"
    by blast
  then have "dom mb' = insert (int n + int (length acc)) (dom mb) \<union>
          {int n + int (length acc) + 1 ..< int n + int (length acc) + 1 + int (length items)}"
    by (simp add: ac_simps)
  with len have "dom mb' = insert (int n + int (length acc)) (dom mb) \<union>
          {int n + int (length acc) + 1 ..< int n + int (length acc) + 1 + int (length items)}
      \<and> length embs = length acc + 1 + length items" by simp
  then show ?case by auto
qed

lemma save_index_memory:
  "index (snd (save_index s)) = index s" "metadata (snd (save_index s)) = metadata s"
  "dimension (snd (save_index s)) = dimension s"
  "fst (save_index s) = None \<longleftrightarrow> index_writable s \<and> metadata_writable s"
  by (simp_all add: save_index_def Let_def)

lemma create_new_index_memory:
  "index (snd (create_new_index s)) = IndexFlatIP (dimension s)"
  "metadata (snd (create_new_index s)) = Map.empty"
  "fst (create_new_index s) = None \<longleftrightarrow> index_writable s \<and> metadata_writable s"
  by (simp_all add: create_new_index_def save_index_def Let_def)

lemma ntotal_IndexFlatIP [simp]: "ntotal (IndexFlatIP n) = 0" "d (IndexFlatIP n) = n"
  by (simp_all add: ntotal_def IndexFlatIP_def)

lemma rebuild_index_memory:
  "index (snd (rebuild_index s)) = IndexFlatIP (dimension s)"
  "metadata (snd (rebuild_index s)) = Map.empty"
  "index_writable (snd (rebuild_index s)) = index_writable s"
  "metadata_writable (snd (rebuild_index s)) = metadata_writable s"
  by (simp_all add: rebuild_index_def create_new_index_def save_index_def Let_def)

lemma add_vector_fail:
  "length v \<noteq> d (index s) \<Longrightarrow> add_vector rid v rd s = (Some (RuntimeError ''Could not add vector to index''), s)"
  by (simp add: add_vector_def index_add_def)

lemma add_vector_memory:
  assumes "length v = d (index s)"
  shows "index (snd (add_vector rid v rd s)) = (index s)\<lparr>xb := xb (index s) @ [normalize_L2 v]\<rparr>"
    and "metadata (snd (add_vector rid v rd s)) = (metadata s)(int (ntotal (index s)) \<mapsto> entry_of rid rd)"
    and "fst (add_vector rid v rd s) = None \<longleftrightarrow> index_writable s \<and> metadata_writable s"
  using assms by (simp_all add: add_vector_def index_add_def save_index_def Let_def ntotal_def)

lemma add_vector_success:
  "fst (add_vector rid v rd s) = None \<Longrightarrow> length v = d (index s)"
  by (rule ccontr) (simp add: add_vector_fail)

lemma add_vector_dense:
  assumes "slot_dense s" shows "slot_dense (snd (add_vector rid v rd s))"
proof (cases "length v = d (index s)")
  case True
  from add_vector_memory(1,2) [OF True, of rid rd] assms show ?thesis
    by (auto simp: slot_dense_def ntotal_def)
next
  case False
  with assms show ?thesis by (simp add: add_vector_fail)
qed

lemma add_vector_slot:
  assumes "slot_dense s" "fst (add_vector rid v rd s) = None"
  shows "ntotal (index (snd (add_vector rid v rd s))) = ntotal (index s) + 1"
    and "metadata (snd (add_vector rid v rd s))
           (int (ntotal (index (snd (add_vector rid v rd s)))) - 1) = Some (entry_of rid rd)"
    and "int (ntotal (index (snd (add_vector rid v rd s)))) - 1 \<notin> dom (metadata s)"
    and "\<forall>k \<in> dom (metadata s). metadata (snd (add_vector rid v rd s)) k = metadata s k"
proof -
  from assms(2) have len: "length v = d (index s)" by (rule add_vector_success)
  note m = add_vector_memory(1,2) [OF len, of rid rd]
  show n: "ntotal (index (snd (add_vector rid v rd s))) = ntotal (index s) + 1"
    by (simp add: m ntotal_def)
  show "metadata (snd (add_vector rid v rd s))
           (int (ntotal (index (snd (add_vector rid v rd s)))) - 1) = Some (entry_of rid rd)"
    by (simp add: n m(2))
  from assms(1) show "int (ntotal (index (snd (add_vector rid v rd s)))) - 1 \<notin> dom (metadata s)"
    by (simp add: n slot_dense_def)
  from assms(1) show "\<forall>k \<in> dom (metadata s). metadata (snd (add_vector rid v rd s)) k = metadata s k"
    by (auto simp: m(2) slot_dense_def)
qed

lemma collect_batch_lookup:
  "collect_batch n items acc mb = Inr (embs, mb') \<Longrightarrow>
   (\<forall>k. k < int n + int (length acc) \<longrightarrow> mb' k = mb k) \<and>
   (\<forall>i < length items. \<exists>rid. item_resume_id (items ! i) = Some rid \<and>
       mb' (int n + int (length acc) + int i) = Some (entry_of rid (item_data (items ! i))))"
proof (induction items arbitrary: acc mb)
  case Nil
  then show ?case by simp
next
  case (Cons it items)
  from Cons.prems obtain e rid where e: "item_embedding it = Some e"
    and rid: "item_resume_id it = Some rid"
    and rec: "collect_batch n items (acc @ [e])
                (mb(int n + int (length acc) \<mapsto> entry_of rid (item_data it)))
              = Inr (embs, mb')"
    by (auto split: option.splits simp: Let_def)
  note ih = Cons.IH [OF rec]
  from ih have low: "\<forall>k. k < int n + int (length acc) + 1 \<longrightarrow>
      mb' k = (mb(int n + int (length acc) \<mapsto> entry_of rid (item_data it))) k"
    by (simp add: ac_simps)
  from ih have high: "\<forall>i < length items. \<exists>rid. item_resume_id (items ! i) = Some rid \<and>
       mb' (int n + int (length acc) + 1 + int i) = Some (entry_of rid (item_data (items ! i)))"
    by (simp add: ac_simps)
  have a: "\<forall>k. k < int n + int (length acc) \<longrightarrow> mb' k = mb k"
    using low by auto
  have b: "\<exists>r. item_resume_id ((it # items) ! i) = Some r \<and>
       mb' (int n + int (length acc) + int i) = Some (entry_of r (item_data ((it # items) ! i)))"
    if "i < length (it # items)" for i
  proof (cases i)
    case 0
    with low rid show ?thesis by simp
  next
    case (Suc j)
    with that high have "\<exists>r. item_resume_id (items ! j) = Some r \<and>
       mb' (int n + int (length acc) + 1 + int j) = Some (entry_of r (item_data (items ! j)))"
      by simp
    with Suc show ?thesis by (simp add: ac_simps)
  qed
  from a b show ?case by blast
qed

lemma add_vectors_batch_cases:
  "(add_vectors_batch items s = (Some (RuntimeError ''Could not add vectors to index''), s)) \<or>
   (\<exists>embs mb. collect_batch (ntotal (index s)) items [] Map.empty = Inr (embs, mb) \<and>
      index (snd (add_vectors_batch items s)) = (index s)\<lparr>xb := xb (index s) @ map normalize_L2 embs\<rparr> \<and>
      metadata (snd (add_vectors_batch items s)) = metadata s ++ mb)"
proof (cases "collect_batch (ntotal (index s)) items [] Map.empty")
  case (Inl e)
  then show ?thesis by (simp add: add_vectors_batch_def)
next
  case (Inr p)
  obtain embs mb where p: "p = (embs, mb)" by (cases p)
  show ?thesis
  proof (cases "vstack embs")
    case (Inl e)
    with Inr p show ?thesis by (simp add: add_vectors_batch_def)
  next
    case r: (Inr rows)
    then have rows: "rows = embs" by (auto simp: vstack_def split: list.splits if_splits)
    show ?thesis
    proof (cases "index_add (index s) (map normalize_L2 embs)")
      case (Inl e)
      with Inr p r rows show ?thesis by (simp add: add_vectors_batch_def)
    next
      case i: (Inr idx')
      then have "idx' = (index s)\<lparr>xb := xb (index s) @ map normalize_L2 embs\<rparr>"
        by (auto simp: index_add_def split: if_splits)
      with Inr p r rows i show ?thesis
        by (simp add: add_vectors_batch_def save_index_def Let_def)
    qed
  qed
qed

lemma add_vectors_batch_dense:
  assumes "slot_dense s" shows "slot_dense (snd (add_vectors_batch items s))"
  using add_vectors_batch_cases [of items s]
proof
  assume "add_vectors_batch items s = (Some (RuntimeError ''Could not add vectors to index''), s)"
  with assms show ?thesis by simp
next
  assume "\<exists>embs mb. collect_batch (ntotal (index s)) items [] Map.empty = Inr (embs, mb) \<and>
      index (snd (add_vectors_batch items s)) = (index s)\<lparr>xb := xb (index s) @ map normalize_L2 embs\<rparr> \<and>
      metadata (snd (add_vectors_batch items s)) = metadata s ++ mb"
  then obtain embs mb where c: "collect_batch (ntotal (index s)) items [] Map.empty = Inr (embs, mb)"
    and i: "index (snd (add_vectors_batch items s)) = (index s)\<lparr>xb := xb (index s) @ map normalize_L2 embs\<rparr>"
    and m: "metadata (snd (add_vectors_batch items s)) = metadata s ++ mb" by blast
  from collect_batch_dom [OF c]
  have dm: "dom mb = {int (ntotal (index s)) ..< int (ntotal (index s)) + int (length items)}"
    and len: "length embs = length items" by simp_all
  from assms dm len show ?thesis
    by (auto simp: slot_dense_def i m ntotal_def)
qed

lemma add_vectors_batch_slots:
  assumes "slot_dense s" "fst (add_vectors_batch items s) = None"
  shows "ntotal (index (snd (add_vectors_batch items s))) = ntotal (index s) + length items"
    and "\<forall>k \<in> dom (metadata s). metadata (snd (add_vectors_batch items s)) k = metadata s k"
    and "\<forall>i < length items. \<exists>rid. item_resume_id (items ! i) = Some rid \<and>
            metadata (snd (add_vectors_batch items s)) (int (ntotal (index s)) + int i)
              = Some (entry_of rid (item_data (items ! i)))"
proof -
  from assms(2) add_vectors_batch_cases [of items s]
  obtain embs mb where c: "collect_batch (ntotal (index s)) items [] Map.empty = Inr (embs, mb)"
    and i: "index (snd (add_vectors_batch items s)) = (index s)\<lparr>xb := xb (index s) @ map normalize_L2 embs\<rparr>"
    and m: "metadata (snd (add_vectors_batch items s)) = metadata s ++ mb" by auto
  from collect_batch_dom [OF c]
  have dm: "dom mb = {int (ntotal (index s)) ..< int (ntotal (index s)) + int (length items)}"
    and len: "length embs = length items" by simp_all
  show "ntotal (index (snd (add_vectors_batch items s))) = ntotal (index s) + length items"
    by (simp add: i len ntotal_def)
  show "\<forall>k \<in> dom (metadata s). metadata (snd (add_vectors_batch items s)) k = metadata s k"
  proof
    fix k assume "k \<in> dom (metadata s)"
    with assms(1) have "k < int (ntotal (index s))" by (simp add: slot_dense_def)
    with dm have "k \<notin> dom mb" by simp
    then show "metadata (snd (add_vectors_batch items s)) k = metadata s k"
      by (simp add: m map_add_dom_app_simps)
  qed
  show "\<forall>i < length items. \<exists>rid. item_resume_id (items ! i) = Some rid \<and>
            metadata (snd (add_vectors_batch items s)) (int (ntotal (index s)) + int i)
              = Some (entry_of rid (item_data (items ! i)))"
  proof (intro allI impI)
    fix i assume "i < length items"
    with collect_batch_lookup [OF c] obtain rid where
      "item_resume_id (items ! i) = Some rid"
      "mb (int (ntotal (index s)) + int i) = Some (entry_of rid (item_data (items ! i)))"
      by auto
    then show "\<exists>rid. item_resume_id (items ! i) = Some rid \<and>
            metadata (snd (add_vectors_batch items s)) (int (ntotal (index s)) + int i)
              = Some (entry_of rid (item_data (items ! i)))"
      by (simp add: m)
  qed
qed

section \<open>Deleting by identifier\<close>

text \<open>
  C9.  For every resume identifier, \<^verbatim>\<open>delete_vector\<close> returns \<^verbatim>\<open>False\<close> and leaves the
  state as it was, and the route answers with the message that the resume was not found or
  that deletion is not supported, never with the message of a successful deletion; the
  index and the metadata mapping are unchanged.
\<close>

theorem delete_not_supported:
  "delete_vector rid s = (False, s) \<and>
   delete_resume rid s = ((200, ''Resume '' @ rid @ '' not found or deletion not supported''), s) \<and>
   snd (fst (delete_resume rid s)) \<noteq> ''Resume '' @ rid @ '' deleted successfully''"
  by (simp add: delete_vector_def delete_resume_def)

section \<open>Appending a vector of the wrong length\<close>

text \<open>
  C4.  For every vector whose length differs from the dimension of the index,
  \<^verbatim>\<open>add_vector\<close> fails, with the runtime error that wraps the library's dimension check,
  and the state after the call is the state before it: the vector count and the metadata
  mapping are unchanged.
\<close>

theorem add_vector_wrong_length:
  assumes "length embedding \<noteq> d (index s)"
  shows "add_vector rid embedding rd s =
           (Some (RuntimeError ''Could not add vector to index''), s)"
  using assms by (simp add: add_vector_def index_add_def)

theorem add_vector_wrong_length_witness:
  "length [1 :: real] \<noteq> d (index (blank 2 Absent Absent True True)) \<and>
   add_vector ''r1'' [1] no_data (blank 2 Absent Absent True True) =
     (Some (RuntimeError ''Could not add vector to index''), blank 2 Absent Absent True True)"
proof -
  have h: "length [1 :: real] \<noteq> d (index (blank 2 Absent Absent True True))"
    by (simp add: blank_def IndexFlatIP_def)
  from add_vector_wrong_length [OF h] h show ?thesis by blast
qed

text \<open>
  C5.  For every batch, if one item carries a vector whose length differs from the
  dimension of the index, \<^verbatim>\<open>add_vectors_batch\<close> fails as a whole and the state after the
  call is the state before it: no prefix of the batch is committed.
\<close>

theorem add_vectors_batch_atomic:
  assumes "\<exists>it \<in> set items. \<exists>v. item_embedding it = Some v \<and> length v \<noteq> d (index s)"
  shows "add_vectors_batch items s =
           (Some (RuntimeError ''Could not add vectors to index''), s)"
proof -
  from assms obtain it v where it: "it \<in> set items" "item_embedding it = Some v"
    "length v \<noteq> d (index s)" by blast
  show ?thesis
  proof (cases "collect_batch (ntotal (index s)) items [] Map.empty")
    case (Inl e)
    then show ?thesis by (simp add: add_vectors_batch_def)
  next
    case (Inr p)
    obtain embs mb where p: "p = (embs, mb)" by (cases p)
    from Inr p have "map Some embs = map item_embedding items"
      using collect_batch_embeddings by fastforce
    with it have "Some v \<in> set (map Some embs)" by (metis image_eqI set_map)
    then have v: "v \<in> set embs" by auto
    show ?thesis
    proof (cases "vstack embs")
      case (Inl e)
      with Inr p show ?thesis by (simp add: add_vectors_batch_def)
    next
      case (Inr rows)
      then have "rows = embs" by (auto simp: vstack_def split: list.splits if_splits)
      with v it(3) have "\<not> list_all (\<lambda>r. length r = d (index s)) (map normalize_L2 rows)"
        by (auto simp: list_all_iff)
      then have "index_add (index s) (map normalize_L2 rows) = Inl AssertionError"
        by (simp add: index_add_def)
      with Inr \<open>collect_batch _ _ _ _ = Inr p\<close> p show ?thesis
        by (simp add: add_vectors_batch_def)
    qed
  qed
qed

theorem add_vectors_batch_atomic_witness:
  "(\<exists>it \<in> set [\<lparr>item_embedding = Some [1, 0], item_resume_id = Some ''a'', item_data = no_data\<rparr>,
                 \<lparr>item_embedding = Some [1], item_resume_id = Some ''b'', item_data = no_data\<rparr>].
      \<exists>v. item_embedding it = Some v \<and> length v \<noteq> d (index (blank 2 Absent Absent True True))) \<and>
   add_vectors_batch
     [\<lparr>item_embedding = Some [1, 0], item_resume_id = Some ''a'', item_data = no_data\<rparr>,
      \<lparr>item_embedding = Some [1], item_resume_id = Some ''b'', item_data = no_data\<rparr>]
     (blank 2 Absent Absent True True) =
     (Some (RuntimeError ''Could not add vectors to index''), blank 2 Absent Absent True True)"
proof -
  have h: "\<exists>it \<in> set [\<lparr>item_embedding = Some [1, 0], item_resume_id = Some ''a'', item_data = no_data\<rparr>,
                 \<lparr>item_embedding = Some [1 :: real], item_resume_id = Some ''b'', item_data = no_data\<rparr>].
      \<exists>v. item_embedding it = Some v \<and> length v \<noteq> d (index (blank 2 Absent Absent True True))"
    by (simp add: blank_def IndexFlatIP_def)
  from add_vectors_batch_atomic [OF h] h show ?thesis by blast
qed

lemma FAISSService_cases:
  assumes "FAISSService n ifile mfile wi wm = Inr s0"
  shows "(ifile = Stored (index s0) \<and> mfile = Stored (metadata s0)) \<or>
         (index s0 = IndexFlatIP n \<and> metadata s0 = Map.empty)"
  using assms
  by (auto simp: FAISSService_def initialize_index_def load_index_def create_new_index_def
      save_index_def blank_def Let_def
      split: if_splits artifact.splits prod.splits option.splits)

lemma FAISSService_dense:
  assumes "FAISSService n ifile mfile wi wm = Inr s0"
    and "\<forall>idx m. ifile = Stored idx \<longrightarrow> mfile = Stored m \<longrightarrow> dom m = {0 ..< int (ntotal idx)}"
  shows "slot_dense s0"
  using FAISSService_cases [OF assms(1)]
proof
  assume "ifile = Stored (index s0) \<and> mfile = Stored (metadata s0)"
  with assms(2) show ?thesis unfolding slot_dense_def by blast
next
  assume "index s0 = IndexFlatIP n \<and> metadata s0 = Map.empty"
  then show ?thesis by (simp add: slot_dense_def)
qed

section \<open>The slot invariant\<close>

text \<open>
  C6 as stated fails: the invariant does not hold after every operation, because the
  constructor loads whatever pair of files it finds and checks nothing.  From an index file
  with no vectors and a metadata file with an entry under \<open>0\<close> it builds a service whose
  keys are not the slots of its vectors, and the next append stores its record under \<open>0\<close>,
  over the entry that was there: a slot used twice.  The service can leave such a pair
  itself: where the metadata file cannot be written, an append fails after it has written
  the index file, and a service constructed from the two files has one vector and no
  metadata.
\<close>

theorem slot_density_counterexample:
  "FAISSService 2 (Stored (IndexFlatIP 2)) (Stored [0 \<mapsto> entry_of ''old'' no_data]) True True
     = Inr ((blank 2 (Stored (IndexFlatIP 2)) (Stored [0 \<mapsto> entry_of ''old'' no_data]) True True)\<lparr>metadata := [0 \<mapsto> entry_of ''old'' no_data]\<rparr>) \<and>
   \<not> slot_dense ((blank 2 (Stored (IndexFlatIP 2)) (Stored [0 \<mapsto> entry_of ''old'' no_data]) True True)\<lparr>metadata := [0 \<mapsto> entry_of ''old'' no_data]\<rparr>) \<and>
   fst (add_vector ''new'' [3, 4] no_data ((blank 2 (Stored (IndexFlatIP 2)) (Stored [0 \<mapsto> entry_of ''old'' no_data]) True True)\<lparr>metadata := [0 \<mapsto> entry_of ''old'' no_data]\<rparr>)) = None \<and>
   metadata ((blank 2 (Stored (IndexFlatIP 2)) (Stored [0 \<mapsto> entry_of ''old'' no_data]) True True)\<lparr>metadata := [0 \<mapsto> entry_of ''old'' no_data]\<rparr>) 0 = Some (entry_of ''old'' no_data) \<and>
   metadata (snd (add_vector ''new'' [3, 4] no_data ((blank 2 (Stored (IndexFlatIP 2)) (Stored [0 \<mapsto> entry_of ''old'' no_data]) True True)\<lparr>metadata := [0 \<mapsto> entry_of ''old'' no_data]\<rparr>))) 0 = Some (entry_of ''new'' no_data) \<and>
   entry_of ''old'' no_data \<noteq> entry_of ''new'' no_data \<and>
   slot_dense ((blank 2 (Stored (IndexFlatIP 2)) (Stored Map.empty) True True)\<lparr>metadata_writable := False\<rparr>) \<and>
   fst (add_vector ''a'' [3, 4] no_data ((blank 2 (Stored (IndexFlatIP 2)) (Stored Map.empty) True True)\<lparr>metadata_writable := False\<rparr>))
     = Some (RuntimeError ''Could not add vector to index'') \<and>
   (case FAISSService 2
           (index_file (snd (add_vector ''a'' [3, 4] no_data ((blank 2 (Stored (IndexFlatIP 2)) (Stored Map.empty) True True)\<lparr>metadata_writable := False\<rparr>))))
           (metadata_file (snd (add_vector ''a'' [3, 4] no_data ((blank 2 (Stored (IndexFlatIP 2)) (Stored Map.empty) True True)\<lparr>metadata_writable := False\<rparr>))))
           True True of
      Inl e \<Rightarrow> False
    | Inr s \<Rightarrow> ntotal (index s) = 1 \<and> metadata s = Map.empty \<and> \<not> slot_dense s)"
  by (simp add: FAISSService_def initialize_index_def load_index_def blank_def slot_dense_def
      add_vector_def index_add_def save_index_def ntotal_def entry_of_def IndexFlatIP_def
      Let_def)

text \<open>
  C6, amended.  Starting from a state whose metadata keys are exactly \<open>0, \<dots>, ntotal - 1\<close>, the
  same holds after \<^verbatim>\<open>add_vector\<close>, \<^verbatim>\<open>add_vectors_batch\<close>, \<^verbatim>\<open>delete_vector\<close>, a save and
  \<^verbatim>\<open>rebuild_index\<close>, whether the call succeeds or fails.  A successful append raises the
  vector count by one and stores its record under the new count minus one, a key that was
  not in the mapping before, and leaves every earlier entry as it was; a successful batch
  does the same for each of its items in order.  A successful save leaves the index and the
  mapping of the state in the two files.  After a rebuild the index is empty, the mapping is
  empty, and the next append gets slot \<open>0\<close>.  The constructor yields such a state when it
  creates a fresh index, and when the pair it loads is itself dense; it does not check the
  pair.
\<close>

theorem slot_density:
  assumes "slot_dense s"
  shows "slot_dense (snd (add_vector rid v rd s)) \<and>
     (fst (add_vector rid v rd s) = None \<longrightarrow>
        ntotal (index (snd (add_vector rid v rd s))) = ntotal (index s) + 1 \<and>
        metadata (snd (add_vector rid v rd s))
          (int (ntotal (index (snd (add_vector rid v rd s)))) - 1) = Some (entry_of rid rd) \<and>
        int (ntotal (index (snd (add_vector rid v rd s)))) - 1 \<notin> dom (metadata s) \<and>
        (\<forall>k \<in> dom (metadata s). metadata (snd (add_vector rid v rd s)) k = metadata s k)) \<and>
     slot_dense (snd (add_vectors_batch items s)) \<and>
     (fst (add_vectors_batch items s) = None \<longrightarrow>
        ntotal (index (snd (add_vectors_batch items s))) = ntotal (index s) + length items \<and>
        (\<forall>k \<in> dom (metadata s). metadata (snd (add_vectors_batch items s)) k = metadata s k) \<and>
        (\<forall>i < length items. \<exists>r. item_resume_id (items ! i) = Some r \<and>
            metadata (snd (add_vectors_batch items s)) (int (ntotal (index s)) + int i)
              = Some (entry_of r (item_data (items ! i))))) \<and>
     slot_dense (snd (delete_vector rid s)) \<and>
     slot_dense (snd (save_index s)) \<and>
     (fst (save_index s) = None \<longrightarrow>
        index_file (snd (save_index s)) = Stored (index s) \<and>
        metadata_file (snd (save_index s)) = Stored (metadata s)) \<and>
     slot_dense (snd (rebuild_index s)) \<and>
     ntotal (index (snd (rebuild_index s))) = 0 \<and>
     metadata (snd (rebuild_index s)) = Map.empty \<and>
     (fst (add_vector rid v rd (snd (rebuild_index s))) = None \<longrightarrow>
        metadata (snd (add_vector rid v rd (snd (rebuild_index s)))) 0 = Some (entry_of rid rd)) \<and>
     (\<forall>n ifile mfile wi wm s0.
        FAISSService n ifile mfile wi wm = Inr s0 \<longrightarrow>
        (\<forall>idx m. ifile = Stored idx \<longrightarrow> mfile = Stored m \<longrightarrow> dom m = {0 ..< int (ntotal idx)}) \<longrightarrow>
        slot_dense s0)"
proof -
  have rb: "slot_dense (snd (rebuild_index s))"
    by (simp add: slot_dense_def rebuild_index_memory)
  have first: "metadata (snd (add_vector rid v rd (snd (rebuild_index s)))) 0 = Some (entry_of rid rd)"
    if "fst (add_vector rid v rd (snd (rebuild_index s))) = None"
    using add_vector_slot(1,2) [OF rb that] by (simp add: rebuild_index_memory)
  have sv: "slot_dense (snd (save_index s))"
    using assms by (simp add: slot_dense_def save_index_memory)
  have dl: "slot_dense (snd (delete_vector rid s))"
    using assms by (simp add: delete_vector_def)
  have fl: "fst (save_index s) = None \<longrightarrow>
        index_file (snd (save_index s)) = Stored (index s) \<and>
        metadata_file (snd (save_index s)) = Stored (metadata s)"
    by (simp add: save_index_def Let_def)
  show ?thesis
    using add_vector_dense [OF assms, of rid v rd] add_vector_slot [OF assms, of rid v rd]
      add_vectors_batch_dense [OF assms, of items] add_vectors_batch_slots [OF assms, of items]
      rb first sv dl fl FAISSService_dense
    by (simp add: rebuild_index_memory)
qed

theorem slot_density_witness:
  "slot_dense (blank 2 Absent Absent True True) \<and>
   fst (add_vector ''r1'' [3, 4] no_data (blank 2 Absent Absent True True)) = None \<and>
   fst (add_vectors_batch
     [\<lparr>item_embedding = Some [1, 0], item_resume_id = Some ''a'', item_data = no_data\<rparr>,
      \<lparr>item_embedding = Some [0, 1], item_resume_id = Some ''b'', item_data = no_data\<rparr>]
     (blank 2 Absent Absent True True)) = None \<and>
   fst (add_vector ''r1'' [3, 4] no_data (snd (rebuild_index (blank 2 Absent Absent True True)))) = None \<and>
   FAISSService 2 Absent Absent True True
     = Inr (blank 2 (Stored (IndexFlatIP 2)) (Stored Map.empty) True True) \<and>
   slot_dense (snd (add_vector ''r1'' [3, 4] no_data (blank 2 Absent Absent True True))) \<and>
   ntotal (index (snd (add_vector ''r1'' [3, 4] no_data (blank 2 Absent Absent True True)))) = 1 \<and>
   metadata (snd (add_vector ''r1'' [3, 4] no_data (blank 2 Absent Absent True True))) 0 = Some (entry_of ''r1'' no_data) \<and>
   slot_dense (snd (add_vectors_batch
     [\<lparr>item_embedding = Some [1, 0], item_resume_id = Some ''a'', item_data = no_data\<rparr>,
      \<lparr>item_embedding = Some [0, 1], item_resume_id = Some ''b'', item_data = no_data\<rparr>]
     (blank 2 Absent Absent True True))) \<and>
   ntotal (index (snd (add_vectors_batch
     [\<lparr>item_embedding = Some [1, 0], item_resume_id = Some ''a'', item_data = no_data\<rparr>,
      \<lparr>item_embedding = Some [0, 1], item_resume_id = Some ''b'', item_data = no_data\<rparr>]
     (blank 2 Absent Absent True True)))) = 2 \<and>
   metadata (snd (add_vector ''r1'' [3, 4] no_data (snd (rebuild_index (blank 2 Absent Absent True True))))) 0 = Some (entry_of ''r1'' no_data) \<and>
   slot_dense (blank 2 (Stored (IndexFlatIP 2)) (Stored Map.empty) True True)"
proof -
  have h: "slot_dense (blank 2 Absent Absent True True)"
    by (simp add: slot_dense_def blank_def)
  have a: "fst (add_vector ''r1'' [3, 4] no_data (blank 2 Absent Absent True True)) = None"
    by (simp add: add_vector_memory blank_def)
  have b: "fst (add_vectors_batch
     [\<lparr>item_embedding = Some [1, 0], item_resume_id = Some ''a'', item_data = no_data\<rparr>,
      \<lparr>item_embedding = Some [0, 1], item_resume_id = Some ''b'', item_data = no_data\<rparr>]
     (blank 2 Absent Absent True True)) = None"
    by (simp add: add_vectors_batch_def vstack_def index_add_def save_index_def blank_def
        Let_def)
  have c: "fst (add_vector ''r1'' [3, 4] no_data (snd (rebuild_index (blank 2 Absent Absent True True)))) = None"
    by (simp add: add_vector_memory rebuild_index_memory blank_def)
  have i: "FAISSService 2 Absent Absent True True
     = Inr (blank 2 (Stored (IndexFlatIP 2)) (Stored Map.empty) True True)"
    by (simp add: FAISSService_def initialize_index_def create_new_index_def save_index_def
        blank_def Let_def)
  have n0: "ntotal (index (blank 2 Absent Absent True True)) = 0" by (simp add: blank_def)
  note t = slot_density [OF h, of "''r1''" "[3, 4]" no_data
      "[\<lparr>item_embedding = Some [1, 0], item_resume_id = Some ''a'', item_data = no_data\<rparr>, \<lparr>item_embedding = Some [0, 1], item_resume_id = Some ''b'', item_data = no_data\<rparr>]"]
  from t have d1: "slot_dense (snd (add_vector ''r1'' [3, 4] no_data (blank 2 Absent Absent True True)))" by blast
  from t a have n1: "ntotal (index (snd (add_vector ''r1'' [3, 4] no_data (blank 2 Absent Absent True True)))) = ntotal (index (blank 2 Absent Absent True True)) + 1"
    by blast
  from t a have m1: "metadata (snd (add_vector ''r1'' [3, 4] no_data (blank 2 Absent Absent True True)))
      (int (ntotal (index (snd (add_vector ''r1'' [3, 4] no_data (blank 2 Absent Absent True True))))) - 1) = Some (entry_of ''r1'' no_data)"
    by blast
  from t have d2: "slot_dense (snd (add_vectors_batch [\<lparr>item_embedding = Some [1, 0], item_resume_id = Some ''a'', item_data = no_data\<rparr>, \<lparr>item_embedding = Some [0, 1], item_resume_id = Some ''b'', item_data = no_data\<rparr>] (blank 2 Absent Absent True True)))" by blast
  from t b have n2: "ntotal (index (snd (add_vectors_batch [\<lparr>item_embedding = Some [1, 0], item_resume_id = Some ''a'', item_data = no_data\<rparr>, \<lparr>item_embedding = Some [0, 1], item_resume_id = Some ''b'', item_data = no_data\<rparr>] (blank 2 Absent Absent True True)))) = ntotal (index (blank 2 Absent Absent True True)) + length [\<lparr>item_embedding = Some [1, 0], item_resume_id = Some ''a'', item_data = no_data\<rparr>, \<lparr>item_embedding = Some [0, 1], item_resume_id = Some ''b'', item_data = no_data\<rparr>]"
    by blast
  from t c have m3: "metadata (snd (add_vector ''r1'' [3, 4] no_data (snd (rebuild_index (blank 2 Absent Absent True True))))) 0 = Some (entry_of ''r1'' no_data)"
    by blast
  from t i have d4: "slot_dense (blank 2 (Stored (IndexFlatIP 2)) (Stored Map.empty) True True)"
    by blast
  from n1 n0 have n1': "ntotal (index (snd (add_vector ''r1'' [3, 4] no_data (blank 2 Absent Absent True True)))) = 1" by simp
  from m1 n1' have m1': "metadata (snd (add_vector ''r1'' [3, 4] no_data (blank 2 Absent Absent True True))) 0 = Some (entry_of ''r1'' no_data)" by simp
  from n2 n0 have n2': "ntotal (index (snd (add_vectors_batch [\<lparr>item_embedding = Some [1, 0], item_resume_id = Some ''a'', item_data = no_data\<rparr>, \<lparr>item_embedding = Some [0, 1], item_resume_id = Some ''b'', item_data = no_data\<rparr>] (blank 2 Absent Absent True True)))) = 2" by simp
  from h a b c i d1 n1' m1' d2 n2' m3 d4 show ?thesis by blast
qed

section \<open>Initialisation with one artifact missing\<close>

text \<open>
  C3 as stated fails.  With an index file that holds one vector and no metadata file, the
  constructor raises nothing: it returns a service with a fresh empty index, and both files
  now hold the empty pair.
\<close>

theorem initialize_one_artifact_counterexample:
  "exists_file (Stored \<lparr>d = 2, xb = [[1, 0]]\<rparr>) \<and> \<not> exists_file (Absent :: metadata_map artifact) \<and>
   FAISSService 2 (Stored \<lparr>d = 2, xb = [[1, 0]]\<rparr>) Absent True True
     = Inr (blank 2 (Stored (IndexFlatIP 2)) (Stored Map.empty) True True)"
  by (simp add: FAISSService_def initialize_index_def create_new_index_def save_index_def
      blank_def Let_def)

text \<open>
  C3, amended.  If exactly one of the two artifacts exists when the service is constructed,
  no load is attempted: where the files can be written, the constructor returns a service
  with a fresh empty index of the configured dimension and an empty metadata mapping, and
  both files hold that empty pair; where they cannot, the constructor fails with the runtime
  error of index creation.
\<close>

theorem initialize_one_artifact:
  assumes "exists_file ifile \<noteq> exists_file mfile"
  shows "FAISSService n ifile mfile wi wm =
           (if wi \<and> wm then Inr (blank n (Stored (IndexFlatIP n)) (Stored Map.empty) True True)
            else Inl (RuntimeError ''Could not create FAISS index''))"
  using assms
  by (auto simp: FAISSService_def initialize_index_def create_new_index_def save_index_def
      blank_def Let_def)

theorem initialize_one_artifact_witness:
  "exists_file (Stored \<lparr>d = 2, xb = [[1, 0]]\<rparr>) \<noteq> exists_file (Absent :: metadata_map artifact) \<and>
   FAISSService 2 (Stored \<lparr>d = 2, xb = [[1, 0]]\<rparr>) Absent True True
     = Inr (blank 2 (Stored (IndexFlatIP 2)) (Stored Map.empty) True True) \<and>
   FAISSService 2 (Stored \<lparr>d = 2, xb = [[1, 0]]\<rparr>) Absent True False
     = Inl (RuntimeError ''Could not create FAISS index'')"
proof -
  have h: "exists_file (Stored \<lparr>d = 2, xb = [[1, 0 :: real]]\<rparr>)
             \<noteq> exists_file (Absent :: metadata_map artifact)" by simp
  from initialize_one_artifact [OF h, of 2 True True]
    initialize_one_artifact [OF h, of 2 True False] h
  show ?thesis by simp
qed

section \<open>Norms\<close>

lemma sum_squares_nonneg: "0 \<le> sum_list (map (\<lambda>x. x * x) (v :: real list))"
  by (induction v) simp_all

lemma sum_squares_zero_iff:
  "sum_list (map (\<lambda>x. x * x) (v :: real list)) = 0 \<longleftrightarrow> (\<forall>x \<in> set v. x = 0)"
proof (induction v)
  case Nil
  then show ?case by simp
next
  case (Cons a v)
  have "a * a + sum_list (map (\<lambda>x. x * x) v) = 0 \<longleftrightarrow>
        a * a = 0 \<and> sum_list (map (\<lambda>x. x * x) v) = 0"
    using sum_squares_nonneg [of v] by (intro add_nonneg_eq_0_iff) simp_all
  with Cons show ?case by simp
qed

lemma l2_norm_zero_iff: "l2_norm v = 0 \<longleftrightarrow> (\<forall>x \<in> set v. x = 0)"
  by (simp add: l2_norm_def sum_squares_zero_iff)

lemma l2_norm_nonneg: "0 \<le> l2_norm v"
  by (simp add: l2_norm_def sum_squares_nonneg)

lemma inner_self: "inner a a = sum_list (map (\<lambda>x. x * x) a)"
  by (induction a) (simp_all add: inner_def)

lemma l2_norm_square: "l2_norm a * l2_norm a = inner a a"
  by (simp add: l2_norm_def inner_self sum_squares_nonneg)

lemma compute_similarity_clamped:
  "0 \<le> compute_similarity ops a b \<and> compute_similarity ops a b \<le> 1"
  by (simp add: compute_similarity_def Let_def split: sum.splits)

lemma compute_similarity_zero_norm:
  "fl_norm ops a = 0 \<or> fl_norm ops b = 0 \<Longrightarrow> compute_similarity ops a b = 0"
  by (auto simp: compute_similarity_def Let_def)

lemma norm_accurate_zero:
  assumes "norm_accurate ops eps a" "\<forall>x \<in> set a. x = 0"
  shows "fl_norm ops a = 0"
proof -
  from assms(2) have "l2_norm a = 0" by (simp add: l2_norm_zero_iff)
  with assms(1) show ?thesis by (simp add: norm_accurate_def)
qed

lemma relative_error_bound:
  fixes eps :: real
  assumes "0 \<le> eps"
  shows "(1 - 5 * eps) * (1 + eps) ^ 3 \<le> (1 - eps) ^ 2"
proof -
  have "(1 - eps) ^ 2 - (1 - 5 * eps) * (1 + eps) ^ 3
          = 13 * eps ^ 2 + 14 * eps ^ 3 + 5 * eps ^ 4"
    by (simp add: power2_eq_square power3_eq_cube power4_eq_xxxx algebra_simps)
  moreover from assms have "0 \<le> 13 * eps ^ 2 + 14 * eps ^ 3 + 5 * eps ^ 4" by simp
  ultimately show ?thesis by linarith
qed

lemma self_similarity_close:
  assumes acc: "self_accurate ops eps a" and eps: "eps < 1" and nz: "\<exists>x \<in> set a. x \<noteq> 0"
  shows "1 - 5 * eps \<le> compute_similarity ops a a"
proof -
  define l where "l = l2_norm a"
  define S where "S = inner a a"
  define n where "n = fl_norm ops a"
  from nz have "l \<noteq> 0" by (simp add: l_def l2_norm_zero_iff)
  with l2_norm_nonneg [of a] have lpos: "0 < l" by (simp add: l_def)
  have lS: "l * l = S" by (simp add: l_def S_def l2_norm_square)
  with lpos have Spos: "0 < S" by (metis mult_pos_pos)
  from acc have na: "\<bar>n - l\<bar> \<le> eps * l"
    by (simp add: self_accurate_def norm_accurate_def n_def l_def)
  from acc obtain dp where dot: "fl_dot ops a a = Inr dp"
    by (auto simp: self_accurate_def split: sum.splits)
  define p where "p = fl_mul ops n n"
  define q where "q = fl_div ops dp p"
  from acc dot have da: "\<bar>dp - S\<bar> \<le> eps * S" and pa: "\<bar>p - n * n\<bar> \<le> eps * (n * n)"
    and qa: "\<bar>q - dp / p\<bar> \<le> eps * \<bar>dp / p\<bar>"
    by (simp_all add: self_accurate_def Let_def n_def S_def p_def q_def)
  from na lpos have "0 \<le> eps * l" by linarith
  with lpos have e0: "0 \<le> eps" by (simp add: zero_le_mult_iff)
  from na have nlo: "l * (1 - eps) \<le> n" and nhi: "n \<le> l * (1 + eps)"
    by (simp_all add: algebra_simps abs_le_iff)
  from lpos eps have "0 < l * (1 - eps)" by simp
  with nlo have npos: "0 < n" by linarith
  then have nn: "0 < n * n" by simp
  from nhi npos have "n * n \<le> (l * (1 + eps)) * (l * (1 + eps))"
    by (intro mult_mono) simp_all
  then have nnhi: "n * n \<le> S * (1 + eps) ^ 2"
    by (simp add: lS [symmetric] power2_eq_square algebra_simps)
  from pa have plo: "n * n * (1 - eps) \<le> p" and phi: "p \<le> n * n * (1 + eps)"
    by (simp_all add: algebra_simps abs_le_iff)
  from nn eps have "0 < n * n * (1 - eps)" by simp
  with plo have ppos: "0 < p" by linarith
  from nnhi e0 have "n * n * (1 + eps) \<le> S * (1 + eps) ^ 2 * (1 + eps)"
    by (intro mult_right_mono) simp_all
  with phi have phi': "p \<le> S * (1 + eps) ^ 3"
    by (simp add: power3_eq_cube power2_eq_square algebra_simps)
  from da have dlo: "S * (1 - eps) \<le> dp" by (simp add: algebra_simps abs_le_iff)
  from Spos eps have "0 < S * (1 - eps)" by simp
  with dlo have dpos: "0 < dp" by linarith
  from dpos ppos have rpos: "0 < dp / p" by simp
  have "S * (1 - eps) / (S * (1 + eps) ^ 3) \<le> dp / p"
    using dpos dlo ppos phi' by (intro frac_le) simp_all
  moreover from Spos have "S * (1 - eps) / (S * (1 + eps) ^ 3) = (1 - eps) / (1 + eps) ^ 3"
    by simp
  ultimately have rlo: "(1 - eps) / (1 + eps) ^ 3 \<le> dp / p" by simp
  from rpos have "\<bar>dp / p\<bar> = dp / p" by (rule abs_of_pos)
  with qa have "dp / p - q \<le> eps * (dp / p)" by linarith
  moreover have "r * (1 - e) = r - e * r" for r e :: real by (simp add: algebra_simps)
  ultimately have "dp / p * (1 - eps) \<le> q" by (metis diff_le_eq add.commute)
  moreover from rlo eps have "(1 - eps) / (1 + eps) ^ 3 * (1 - eps) \<le> dp / p * (1 - eps)"
    by (intro mult_right_mono) simp_all
  ultimately have "(1 - eps) ^ 2 / (1 + eps) ^ 3 \<le> q"
    by (simp add: power2_eq_square)
  moreover from e0 have "0 < (1 + eps) ^ 3" by simp
  then have "1 - 5 * eps \<le> (1 - eps) ^ 2 / (1 + eps) ^ 3"
    using relative_error_bound [OF e0] by (simp add: pos_le_divide_eq)
  ultimately have qlo: "1 - 5 * eps \<le> q" by linarith
  from npos dot have "compute_similarity ops a a = max 0 (min 1 q)"
    by (simp add: compute_similarity_def Let_def n_def [symmetric] p_def q_def)
  with qlo e0 show ?thesis by simp
qed

section \<open>Similarity of two embeddings\<close>

text \<open>
  C7 as stated fails for a non-zero vector whose squares underflow.  The vector with the one
  component \<open>1 / 2 ^ 600\<close> is not zero; its square is below half the least positive double
  and becomes \<open>0\<close>, so the computed norm is \<open>0\<close> and the similarity of the vector with itself
  is \<open>0\<close>, not approximately \<open>1\<close>.
\<close>

theorem compute_similarity_underflow_counterexample:
  "(1 / 2 ^ 600 :: real) \<noteq> 0 \<and>
   compute_similarity (flushing (1 / 2 ^ 1075)) [1 / 2 ^ 600] [1 / 2 ^ 600] = 0"
  by (simp add: compute_similarity_def flushing_def flush_dot_def flush_def)

text \<open>
  C7, amended.  For every pair of vectors and whatever the floating-point operations return,
  \<^verbatim>\<open>compute_similarity\<close> returns a value in the closed interval from \<open>0\<close> to \<open>1\<close>.  It returns
  \<open>0\<close>, raising nothing, when the computed norm of either vector is \<open>0\<close>; that is so for a
  vector of zeros wherever the norm is computed accurately.  For a vector with a non-zero
  component at which the operations are accurate to a relative error \<open>eps\<close> below \<open>1\<close>, the
  similarity of the vector with itself lies between \<open>1 - 5 * eps\<close> and \<open>1\<close>.
\<close>

theorem compute_similarity_range:
  "0 \<le> compute_similarity ops a b \<and> compute_similarity ops a b \<le> 1 \<and>
   (fl_norm ops a = 0 \<or> fl_norm ops b = 0 \<longrightarrow> compute_similarity ops a b = 0) \<and>
   (norm_accurate ops eps a \<longrightarrow> (\<forall>x \<in> set a. x = 0) \<longrightarrow>
      compute_similarity ops a b = 0 \<and> compute_similarity ops b a = 0) \<and>
   (self_accurate ops eps a \<longrightarrow> eps < 1 \<longrightarrow> (\<exists>x \<in> set a. x \<noteq> 0) \<longrightarrow>
      1 - 5 * eps \<le> compute_similarity ops a a \<and> compute_similarity ops a a \<le> 1)"
  using compute_similarity_clamped [of ops a b] compute_similarity_clamped [of ops a a]
    compute_similarity_zero_norm [of ops a b] compute_similarity_zero_norm [of ops b a]
    norm_accurate_zero [of ops eps a] self_similarity_close [of ops eps a]
  by blast

theorem compute_similarity_range_witness:
  "fl_norm (flushing (1 / 2 ^ 1075)) [0, 0] = 0 \<and>
   norm_accurate (flushing (1 / 2 ^ 1075)) (1 / 2 ^ 53) [0, 0] \<and>
   compute_similarity (flushing (1 / 2 ^ 1075)) [0, 0] [1, 0] = 0 \<and>
   self_accurate (flushing (1 / 2 ^ 1075)) (1 / 2 ^ 53) [1, 0] \<and>
   (1 / 2 ^ 53 :: real) < 1 \<and> (1 :: real) \<noteq> 0 \<and>
   1 - 5 * (1 / 2 ^ 53) \<le> compute_similarity (flushing (1 / 2 ^ 1075)) [1, 0] [1, 0] \<and>
   compute_similarity (flushing (1 / 2 ^ 1075)) [1, 0] [1, 0] \<le> 1"
proof -
  let ?ops = "flushing (1 / 2 ^ 1075)"
  have z: "fl_norm ?ops [0, 0] = 0"
    by (simp add: flushing_def flush_dot_def flush_def)
  have za: "norm_accurate ?ops (1 / 2 ^ 53) [0, 0]"
    by (simp add: norm_accurate_def l2_norm_def flushing_def flush_dot_def flush_def)
  have zz: "\<forall>x \<in> set [0, 0 :: real]. x = 0" by simp
  have sa: "self_accurate ?ops (1 / 2 ^ 53) [1, 0]"
    by (simp add: self_accurate_def norm_accurate_def l2_norm_def inner_def flushing_def
        flush_dot_def flush_def Let_def)
  have e: "(1 / 2 ^ 53 :: real) < 1" by simp
  have nz: "\<exists>x \<in> set [1, 0 :: real]. x \<noteq> 0" by simp
  from compute_similarity_range [of ?ops "[0, 0]" "[1, 0]" "1 / 2 ^ 53"] za zz
  have r0: "compute_similarity ?ops [0, 0] [1, 0] = 0" by blast
  from compute_similarity_range [of ?ops "[1, 0]" "[1, 0]" "1 / 2 ^ 53"] sa e nz
  have r1: "1 - 5 * (1 / 2 ^ 53) \<le> compute_similarity ?ops [1, 0] [1, 0] \<and>
            compute_similarity ?ops [1, 0] [1, 0] \<le> 1" by blast
  from z za r0 sa e r1 show ?thesis by simp
qed

section \<open>The loop over the hits\<close>

lemma process_results_filter:
  "process_results m thr hits =
     map (\<lambda>h. \<lparr>similarity_score = fst h, result_index = snd h, entry = the (m (snd h))\<rparr>)
       (filter (\<lambda>h. thr \<le> fst h \<and> snd h \<in> dom m) hits)"
  by (induction m thr hits rule: process_results.induct) (auto split: option.splits)

lemma process_results_pairs:
  "map (\<lambda>r. (similarity_score r, result_index r)) (process_results m thr hits)
     = filter (\<lambda>h. thr \<le> fst h \<and> snd h \<in> dom m) hits"
  by (simp add: process_results_filter comp_def)

lemma process_results_length: "length (process_results m thr hits) \<le> length hits"
  by (simp add: process_results_filter)

lemma process_results_sorted:
  "sorted_wrt (\<lambda>a b. fst b \<le> fst a) hits \<Longrightarrow>
   sorted_wrt (\<lambda>a b. similarity_score b \<le> similarity_score a) (process_results m thr hits)"
  by (simp add: process_results_filter sorted_wrt_map sorted_wrt_filter)

lemma process_results_member:
  "r \<in> set (process_results m thr hits) \<Longrightarrow>
   thr \<le> similarity_score r \<and> (similarity_score r, result_index r) \<in> set hits \<and>
   m (result_index r) = Some (entry r)"
  by (auto simp: process_results_filter)

lemma process_results_empty:
  "\<forall>h \<in> set hits. fst h < thr \<Longrightarrow> process_results m thr hits = []"
  by (auto simp: process_results_filter filter_empty_conv)

lemma normalize_unit [simp]: "normalize_L2 [1, 0] = [1, 0]"
  by (simp add: normalize_L2_def l2_norm_def)

section \<open>What a search returns\<close>

text \<open>
  C1 as stated fails in its tie-break.  \<^verbatim>\<open>search\<close> keeps the hits in the order the library
  returned them and sorts nothing itself.  With two equal stored rows and a library answer
  that lists position \<open>1\<close> before position \<open>0\<close> (an answer within the library's contract: both
  score \<open>1\<close>), the result lists slot \<open>1\<close> before slot \<open>0\<close>.
\<close>

theorem search_tie_counterexample:
  "flat_ip_answer (index ((blank 2 Absent Absent True True)\<lparr>index := \<lparr>d = 2, xb = [[1, 0], [1, 0]]\<rparr>, metadata := [0 \<mapsto> entry_of ''a'' no_data, 1 \<mapsto> entry_of ''b'' no_data]\<rparr>)) (normalize_L2 [1, 0])
     (min 2 (int (ntotal (index ((blank 2 Absent Absent True True)\<lparr>index := \<lparr>d = 2, xb = [[1, 0], [1, 0]]\<rparr>, metadata := [0 \<mapsto> entry_of ''a'' no_data, 1 \<mapsto> entry_of ''b'' no_data]\<rparr>))))) [(1, 1), (1, 0)] \<and>
   search (\<lambda>idx q k. Inr [(1, 1), (1, 0)]) ((blank 2 Absent Absent True True)\<lparr>index := \<lparr>d = 2, xb = [[1, 0], [1, 0]]\<rparr>, metadata := [0 \<mapsto> entry_of ''a'' no_data, 1 \<mapsto> entry_of ''b'' no_data]\<rparr>) [1, 0] 2 (1 / 2)
     = Inr [\<lparr>similarity_score = 1, result_index = 1, entry = entry_of ''b'' no_data\<rparr>, \<lparr>similarity_score = 1, result_index = 0, entry = entry_of ''a'' no_data\<rparr>] \<and>
   \<not> by_similarity_then_slot [\<lparr>similarity_score = 1, result_index = 1, entry = entry_of ''b'' no_data\<rparr>, \<lparr>similarity_score = 1, result_index = 0, entry = entry_of ''a'' no_data\<rparr>]"
  by (simp add: flat_ip_answer_def search_def by_similarity_then_slot_def ntotal_def inner_def
      blank_def)

text \<open>
  C1, amended.  On an index with no vectors \<^verbatim>\<open>search\<close> returns the empty list, whatever the
  library would do.  Where the library's search answers within its contract (a query of the
  index's dimension and \<open>top_k\<close> at least one), \<^verbatim>\<open>search\<close> returns at most \<open>top_k\<close>
  results; each is a stored entry with its own similarity, and that similarity is at least
  the threshold; the results are in non-increasing order of similarity, and they are the
  library's hits that clear the threshold and have metadata, in the library's order, so the
  order among equal similarities is the library's; and when no stored vector clears the
  threshold the result is the empty list.
\<close>

theorem search_results:
  "(ntotal (index s) = 0 \<longrightarrow> search index_search s q top_k threshold = Inr []) \<and>
   (index_search (index s) (normalize_L2 q) (min top_k (int (ntotal (index s)))) = Inr hits \<longrightarrow>
    flat_ip_answer (index s) (normalize_L2 q) (min top_k (int (ntotal (index s)))) hits \<longrightarrow>
    (\<exists>out. search index_search s q top_k threshold = Inr out \<and>
       int (length out) \<le> top_k \<and>
       (\<forall>r \<in> set out. threshold \<le> similarity_score r \<and>
           0 \<le> result_index r \<and> result_index r < int (ntotal (index s)) \<and>
           similarity_score r = inner (normalize_L2 q) (xb (index s) ! nat (result_index r)) \<and>
           metadata s (result_index r) = Some (entry r)) \<and>
       sorted_wrt (\<lambda>a b. similarity_score b \<le> similarity_score a) out \<and>
       map (\<lambda>r. (similarity_score r, result_index r)) out
         = filter (\<lambda>h. threshold \<le> fst h \<and> snd h \<in> dom (metadata s)) hits \<and>
       ((\<forall>v \<in> set (xb (index s)). inner (normalize_L2 q) v < threshold) \<longrightarrow> out = [])))"
proof -
  let ?k = "min top_k (int (ntotal (index s)))"
  let ?qn = "normalize_L2 q"
  have e: "ntotal (index s) = 0 \<longrightarrow> search index_search s q top_k threshold = Inr []"
    by (simp add: search_def)
  have m: "\<exists>out. search index_search s q top_k threshold = Inr out \<and>
       int (length out) \<le> top_k \<and>
       (\<forall>r \<in> set out. threshold \<le> similarity_score r \<and>
           0 \<le> result_index r \<and> result_index r < int (ntotal (index s)) \<and>
           similarity_score r = inner ?qn (xb (index s) ! nat (result_index r)) \<and>
           metadata s (result_index r) = Some (entry r)) \<and>
       sorted_wrt (\<lambda>a b. similarity_score b \<le> similarity_score a) out \<and>
       map (\<lambda>r. (similarity_score r, result_index r)) out
         = filter (\<lambda>h. threshold \<le> fst h \<and> snd h \<in> dom (metadata s)) hits \<and>
       ((\<forall>v \<in> set (xb (index s)). inner ?qn v < threshold) \<longrightarrow> out = [])"
    if lib: "index_search (index s) ?qn ?k = Inr hits"
      and ans: "flat_ip_answer (index s) ?qn ?k hits"
  proof -
    let ?out = "process_results (metadata s) threshold hits"
    from ans have pos: "0 < ?k" and len: "int (length hits) = ?k"
      and mem: "\<forall>h \<in> set hits. 0 \<le> snd h \<and> snd h < int (ntotal (index s)) \<and>
                     fst h = inner ?qn (xb (index s) ! nat (snd h))"
      and srt: "sorted_wrt (\<lambda>a b. fst b \<le> fst a) hits"
      by (simp_all add: flat_ip_answer_def)
    from pos have "ntotal (index s) \<noteq> 0" by auto
    with lib have s: "search index_search s q top_k threshold = Inr ?out"
      by (simp add: search_def)
    have l: "int (length ?out) \<le> top_k"
      using process_results_length [of "metadata s" threshold hits] len by simp
    have r: "\<forall>r \<in> set ?out. threshold \<le> similarity_score r \<and>
           0 \<le> result_index r \<and> result_index r < int (ntotal (index s)) \<and>
           similarity_score r = inner ?qn (xb (index s) ! nat (result_index r)) \<and>
           metadata s (result_index r) = Some (entry r)"
    proof
      fix r assume "r \<in> set ?out"
      from process_results_member [OF this] mem
      show "threshold \<le> similarity_score r \<and>
           0 \<le> result_index r \<and> result_index r < int (ntotal (index s)) \<and>
           similarity_score r = inner ?qn (xb (index s) ! nat (result_index r)) \<and>
           metadata s (result_index r) = Some (entry r)"
        by fastforce
    qed
    have o: "map (\<lambda>r. (similarity_score r, result_index r)) ?out
         = filter (\<lambda>h. threshold \<le> fst h \<and> snd h \<in> dom (metadata s)) hits"
      by (rule process_results_pairs)
    have n: "?out = []" if low: "\<forall>v \<in> set (xb (index s)). inner ?qn v < threshold"
    proof (rule process_results_empty, rule ballI)
      fix h assume h: "h \<in> set hits"
      with mem have "nat (snd h) < length (xb (index s))" and "fst h = inner ?qn (xb (index s) ! nat (snd h))"
        by (auto simp: ntotal_def)
      with low show "fst h < threshold" by (metis nth_mem)
    qed
    from s l r process_results_sorted [OF srt] o n show ?thesis by blast
  qed
  from e m show ?thesis by blast
qed

theorem search_results_witness:
  "search (\<lambda>idx q k. Inl AssertionError) (blank 2 Absent Absent True True) [1, 0] 2 (1 / 2) = Inr [] \<and>
   flat_ip_answer (index ((blank 2 Absent Absent True True)\<lparr>index := \<lparr>d = 2, xb = [[1, 0], [0, 1]]\<rparr>, metadata := [0 \<mapsto> entry_of ''a'' no_data, 1 \<mapsto> entry_of ''b'' no_data]\<rparr>)) (normalize_L2 [1, 0])
     (min 2 (int (ntotal (index ((blank 2 Absent Absent True True)\<lparr>index := \<lparr>d = 2, xb = [[1, 0], [0, 1]]\<rparr>, metadata := [0 \<mapsto> entry_of ''a'' no_data, 1 \<mapsto> entry_of ''b'' no_data]\<rparr>))))) [(1, 0), (0, 1)] \<and>
   search (\<lambda>idx q k. Inr [(1, 0), (0, 1)]) ((blank 2 Absent Absent True True)\<lparr>index := \<lparr>d = 2, xb = [[1, 0], [0, 1]]\<rparr>, metadata := [0 \<mapsto> entry_of ''a'' no_data, 1 \<mapsto> entry_of ''b'' no_data]\<rparr>) [1, 0] 2 (1 / 2)
     = Inr [\<lparr>similarity_score = 1, result_index = 0, entry = entry_of ''a'' no_data\<rparr>] \<and>
   inner (normalize_L2 [1, 0]) [1, 0] < 2 \<and> inner (normalize_L2 [1, 0]) [0, 1] < 2 \<and>
   search (\<lambda>idx q k. Inr [(1, 0), (0, 1)]) ((blank 2 Absent Absent True True)\<lparr>index := \<lparr>d = 2, xb = [[1, 0], [0, 1]]\<rparr>, metadata := [0 \<mapsto> entry_of ''a'' no_data, 1 \<mapsto> entry_of ''b'' no_data]\<rparr>) [1, 0] 2 2 = Inr []"
proof -
  let ?s = "(blank 2 Absent Absent True True)\<lparr>index := \<lparr>d = 2, xb = [[1, 0], [0, 1]]\<rparr>, metadata := [0 \<mapsto> entry_of ''a'' no_data, 1 \<mapsto> entry_of ''b'' no_data]\<rparr>"
  let ?lib = "\<lambda>(idx :: faiss_index) (q :: vector) (k :: int). (Inr [(1, 0), (0, 1)] :: lib_error + hit list)"
  have z: "ntotal (index (blank 2 Absent Absent True True)) = 0" by (simp add: blank_def)
  have a: "flat_ip_answer (index ?s) (normalize_L2 [1, 0]) (min 2 (int (ntotal (index ?s))))
             [(1, 0), (0, 1)]"
    by (simp add: flat_ip_answer_def ntotal_def inner_def blank_def)
  have l: "?lib (index ?s) (normalize_L2 [1, 0]) (min 2 (int (ntotal (index ?s))))
             = Inr [(1, 0), (0, 1)]" by simp
  have low: "\<forall>v \<in> set (xb (index ?s)). inner (normalize_L2 [1, 0]) v < 2"
    by (simp add: inner_def blank_def)
  from search_results [where s = "blank 2 Absent Absent True True"
      and index_search = "\<lambda>idx q k. Inl AssertionError" and q = "[1, 0]" and top_k = 2
      and threshold = "1 / 2"] z
  have e: "search (\<lambda>idx q k. Inl AssertionError) (blank 2 Absent Absent True True) [1, 0] 2 (1 / 2) = Inr []"
    by blast
  from search_results [where s = ?s and index_search = ?lib and q = "[1, 0]" and top_k = 2
      and threshold = "1 / 2" and hits = "[(1, 0), (0, 1)]"] l a
  obtain out where o: "search ?lib ?s [1, 0] 2 (1 / 2) = Inr out"
    and f: "map (\<lambda>r. (similarity_score r, result_index r)) out
         = filter (\<lambda>h. 1 / 2 \<le> fst h \<and> snd h \<in> dom (metadata ?s)) [(1, 0), (0, 1)]"
    and en: "\<forall>r \<in> set out. metadata ?s (result_index r) = Some (entry r)"
    by blast
  from f have f': "map (\<lambda>r. (similarity_score r, result_index r)) out = [(1, 0)]"
    by (simp add: blank_def)
  then obtain r where out: "out = [r]" and r: "similarity_score r = 1" "result_index r = 0"
    by auto
  from en out r have "entry r = entry_of ''a'' no_data" by (simp add: blank_def)
  with r have "r = \<lparr>similarity_score = 1, result_index = 0, entry = entry_of ''a'' no_data\<rparr>" by simp
  with o out have one: "search ?lib ?s [1, 0] 2 (1 / 2) = Inr [\<lparr>similarity_score = 1, result_index = 0, entry = entry_of ''a'' no_data\<rparr>]" by simp
  from search_results [where s = ?s and index_search = ?lib and q = "[1, 0]" and top_k = 2
      and threshold = 2 and hits = "[(1, 0), (0, 1)]"] l a low
  have two: "search ?lib ?s [1, 0] 2 2 = Inr []" by blast
  have low': "inner (normalize_L2 [1, 0]) [1, 0] < 2 \<and> inner (normalize_L2 [1, 0]) [0, 1] < 2"
    by (simp add: inner_def)
  from e a one low' two show ?thesis by blast
qed

text \<open>
  C10.  Every result of \<^verbatim>\<open>search\<close> has its slot among the keys of the metadata mapping.
  Of the hits the library returns, exactly those that clear the threshold and whose slot is
  a key of the mapping appear in the result; a hit whose slot is not a key is left out
  without an error.  So a search can return fewer than \<open>top_k\<close> results although more than
  \<open>top_k\<close> stored vectors clear the threshold: there is such a state.
\<close>

theorem search_needs_metadata:
  "(search index_search s q top_k threshold = Inr out \<longrightarrow>
      (\<forall>r \<in> set out. result_index r \<in> dom (metadata s))) \<and>
   (ntotal (index s) \<noteq> 0 \<longrightarrow>
    index_search (index s) (normalize_L2 q) (min top_k (int (ntotal (index s)))) = Inr hits \<longrightarrow>
      (\<exists>res. search index_search s q top_k threshold = Inr res \<and>
         (\<forall>h \<in> set hits.
            (h \<in> set (map (\<lambda>r. (similarity_score r, result_index r)) res))
              = (threshold \<le> fst h \<and> snd h \<in> dom (metadata s))))) \<and>
   (\<exists>lib s0 q0 k0 thr hits0 res.
      lib (index s0) (normalize_L2 q0) (min k0 (int (ntotal (index s0)))) = Inr hits0 \<and>
      flat_ip_answer (index s0) (normalize_L2 q0) (min k0 (int (ntotal (index s0)))) hits0 \<and>
      search lib s0 q0 k0 thr = Inr res \<and>
      int (length res) < k0 \<and>
      k0 < int (length (filter (\<lambda>v. thr \<le> inner (normalize_L2 q0) v) (xb (index s0)))))"
proof -
  have a: "\<forall>r \<in> set out. result_index r \<in> dom (metadata s)"
    if "search index_search s q top_k threshold = Inr out"
    using that
    by (auto simp: search_def process_results_filter split: if_splits sum.splits)
  have b: "\<exists>res. search index_search s q top_k threshold = Inr res \<and>
         (\<forall>h \<in> set hits.
            (h \<in> set (map (\<lambda>r. (similarity_score r, result_index r)) res))
              = (threshold \<le> fst h \<and> snd h \<in> dom (metadata s)))"
    if "ntotal (index s) \<noteq> 0"
      "index_search (index s) (normalize_L2 q) (min top_k (int (ntotal (index s)))) = Inr hits"
  proof -
    have "set (map (\<lambda>r. (similarity_score r, result_index r))
                 (process_results (metadata s) threshold hits))
          = {h \<in> set hits. threshold \<le> fst h \<and> snd h \<in> dom (metadata s)}"
      by (simp only: process_results_pairs set_filter)
    then have "\<forall>h \<in> set hits.
            (h \<in> set (map (\<lambda>r. (similarity_score r, result_index r))
                          (process_results (metadata s) threshold hits)))
              = (threshold \<le> fst h \<and> snd h \<in> dom (metadata s))"
      by blast
    with that show ?thesis by (simp add: search_def)
  qed
  let ?s = "(blank 2 Absent Absent True True)\<lparr>index := \<lparr>d = 2, xb = [[1, 0], [1, 0], [1, 0]]\<rparr>, metadata := [2 \<mapsto> entry_of ''c'' no_data]\<rparr>"
  let ?lib = "\<lambda>(idx :: faiss_index) (q :: vector) (k :: int). (Inr [(1, 2), (1, 1)] :: lib_error + hit list)"
  have c1: "?lib (index ?s) (normalize_L2 [1, 0]) (min 2 (int (ntotal (index ?s)))) = Inr [(1, 2), (1, 1)]"
    by simp
  have c2: "flat_ip_answer (index ?s) (normalize_L2 [1, 0]) (min 2 (int (ntotal (index ?s)))) [(1, 2), (1, 1)]"
    by (simp add: flat_ip_answer_def ntotal_def inner_def blank_def)
  have c3: "search ?lib ?s [1, 0] 2 (1 / 2) = Inr [\<lparr>similarity_score = 1, result_index = 2, entry = entry_of ''c'' no_data\<rparr>]"
    by (simp add: search_def ntotal_def blank_def)
  have c4: "int (length [\<lparr>similarity_score = 1, result_index = 2, entry = entry_of ''c'' no_data\<rparr>]) < 2" by simp
  have c5: "2 < int (length (filter (\<lambda>v. 1 / 2 \<le> inner (normalize_L2 [1, 0]) v) (xb (index ?s))))"
    by (simp add: inner_def blank_def)
  have c: "\<exists>lib s0 q0 k0 thr hits0 res.
      lib (index s0) (normalize_L2 q0) (min k0 (int (ntotal (index s0)))) = Inr hits0 \<and>
      flat_ip_answer (index s0) (normalize_L2 q0) (min k0 (int (ntotal (index s0)))) hits0 \<and>
      search lib s0 q0 k0 thr = Inr res \<and>
      int (length res) < k0 \<and>
      k0 < int (length (filter (\<lambda>v. thr \<le> inner (normalize_L2 q0) v) (xb (index s0))))"
    apply (rule exI [of _ ?lib])
    apply (rule exI [of _ ?s])
    apply (rule exI [of _ "[1, 0]"])
    apply (rule exI [of _ 2])
    apply (rule exI [of _ "1 / 2"])
    apply (rule exI [of _ "[(1, 2), (1, 1)]"])
    apply (rule exI [of _ "[\<lparr>similarity_score = 1, result_index = 2, entry = entry_of ''c'' no_data\<rparr>]"])
    using c2 c3 c4 c5 apply simp
    done
  from a b c show ?thesis by blast
qed

theorem search_needs_metadata_witness:
  "ntotal (index ((blank 2 Absent Absent True True)\<lparr>index := \<lparr>d = 2, xb = [[1, 0], [1, 0], [1, 0]]\<rparr>, metadata := [2 \<mapsto> entry_of ''c'' no_data]\<rparr>)) \<noteq> 0 \<and>
   search (\<lambda>idx q k. Inr [(1, 2), (1, 1)]) ((blank 2 Absent Absent True True)\<lparr>index := \<lparr>d = 2, xb = [[1, 0], [1, 0], [1, 0]]\<rparr>, metadata := [2 \<mapsto> entry_of ''c'' no_data]\<rparr>) [1, 0] 2 (1 / 2)
     = Inr [\<lparr>similarity_score = 1, result_index = 2, entry = entry_of ''c'' no_data\<rparr>] \<and>
   result_index \<lparr>similarity_score = 1, result_index = 2, entry = entry_of ''c'' no_data\<rparr> \<in> dom (metadata ((blank 2 Absent Absent True True)\<lparr>index := \<lparr>d = 2, xb = [[1, 0], [1, 0], [1, 0]]\<rparr>, metadata := [2 \<mapsto> entry_of ''c'' no_data]\<rparr>)) \<and>
   1 \<notin> dom (metadata ((blank 2 Absent Absent True True)\<lparr>index := \<lparr>d = 2, xb = [[1, 0], [1, 0], [1, 0]]\<rparr>, metadata := [2 \<mapsto> entry_of ''c'' no_data]\<rparr>)) \<and>
   (1, 1) \<notin> set (map (\<lambda>r. (similarity_score r, result_index r)) [\<lparr>similarity_score = 1, result_index = 2, entry = entry_of ''c'' no_data\<rparr>])"
proof -
  let ?s = "(blank 2 Absent Absent True True)\<lparr>index := \<lparr>d = 2, xb = [[1, 0], [1, 0], [1, 0]]\<rparr>, metadata := [2 \<mapsto> entry_of ''c'' no_data]\<rparr>"
  let ?lib = "\<lambda>(idx :: faiss_index) (q :: vector) (k :: int). (Inr [(1, 2), (1, 1)] :: lib_error + hit list)"
  have n: "ntotal (index ?s) \<noteq> 0" by (simp add: ntotal_def blank_def)
  have l: "?lib (index ?s) (normalize_L2 [1, 0]) (min 2 (int (ntotal (index ?s)))) = Inr [(1, 2), (1, 1)]"
    by simp
  have r: "search ?lib ?s [1, 0] 2 (1 / 2) = Inr [\<lparr>similarity_score = 1, result_index = 2, entry = entry_of ''c'' no_data\<rparr>]"
    by (simp add: search_def ntotal_def blank_def)
  have m: "1 \<notin> dom (metadata ?s)" by (simp add: blank_def)
  note t = search_needs_metadata [where s = ?s and index_search = ?lib and q = "[1, 0]"
      and top_k = 2 and threshold = "1 / 2" and hits = "[(1, 2), (1, 1)]"
      and out = "[\<lparr>similarity_score = 1, result_index = 2, entry = entry_of ''c'' no_data\<rparr>]"]
  from t r have a: "result_index \<lparr>similarity_score = 1, result_index = 2, entry = entry_of ''c'' no_data\<rparr> \<in> dom (metadata ?s)" by simp
  from t n l obtain res where res: "search ?lib ?s [1, 0] 2 (1 / 2) = Inr res"
    and ch: "\<forall>h \<in> set [(1, 2), (1, 1)].
            (h \<in> set (map (\<lambda>r. (similarity_score r, result_index r)) res))
              = (1 / 2 \<le> fst h \<and> snd h \<in> dom (metadata ?s))"
    by blast
  from res r have "res = [\<lparr>similarity_score = 1, result_index = 2, entry = entry_of ''c'' no_data\<rparr>]" by simp
  with ch m have b: "(1, 1) \<notin> set (map (\<lambda>r. (similarity_score r, result_index r)) [\<lparr>similarity_score = 1, result_index = 2, entry = entry_of ''c'' no_data\<rparr>])"
    by simp
  from n r a m b show ?thesis by blast
qed

section \<open>Years of experience\<close>

text \<open>
  C2.  The claim asks for the maximum over the captures of all patterns, and the sibling
  function \<^verbatim>\<open>extract_years_of_experience\<close> of \<^verbatim>\<open>utils/helpers.py\<close> computes that.  The
  parser returns from inside its loop at the first pattern that matches.  In
  \<^verbatim>\<open>3 years experience, over 10 years\<close> the first pattern captures \<open>3\<close> and the third
  captures \<open>10\<close>: the maximum over all captures is \<open>10\<close>, and the parser returns \<open>3\<close>.
\<close>

theorem experience_years_early_return:
  "findall (experience_patterns ! 0) ''3 years experience, over 10 years'' = [''3''] \<and>
   findall (experience_patterns ! 2) ''3 years experience, over 10 years'' = [''10''] \<and>
   extract_experience_years ''3 years experience, over 10 years'' = Some 3 \<and>
   max_over_all_patterns ''3 years experience, over 10 years'' = Some 10"
  by code_simp

section \<open>The stored phone\<close>

text \<open>
  C8.  The claim asks for the first match with its separators stripped, and the sibling
  function \<^verbatim>\<open>parse_contact_info\<close> of \<^verbatim>\<open>utils/helpers.py\<close> stores that.  The parser's pattern
  has one capturing group, around the optional country code, so \<^verbatim>\<open>re.findall\<close> returns the
  text of that group and not the match, and nothing is stripped.  For \<^verbatim>\<open>555-123-4567\<close> the
  pattern matches the whole text, whose digits are \<^verbatim>\<open>5551234567\<close>, and the value stored is
  the empty string; for \<^verbatim>\<open>+1 555-123-4567\<close> the value stored is \<^verbatim>\<open>+1\<close> followed by a space.
\<close>

theorem contact_phone_stores_group:
  "first_match phone_pattern ''555-123-4567'' = Some ''555-123-4567'' \<and>
   phone_digits_of_first_match ''555-123-4567'' = Some ''5551234567'' \<and>
   contact_phone ''555-123-4567'' = Some [] \<and>
   first_match phone_pattern ''+1 555-123-4567'' = Some ''+1 555-123-4567'' \<and>
   contact_phone ''+1 555-123-4567'' = Some ''+1 ''"
  by code_simp

end
